theory Spec2Isabelle
  imports Main "HOL-Library.AList"
begin

section \<open>Python values, dictionaries and exceptions\<close>

text \<open>
  The client is the class \<open>Session\<close> of \<open>src/proton/api.py\<close>.  Values that travel
  through it as decoded JSON (request bodies, response envelopes, the stored session data,
  header values) are Python objects; they are modelled by the datatype \<open>json\<close>, with
  \<open>JNull\<close> standing for Python's \<open>None\<close>.  Floating point numbers are left out.
  A Python \<open>dict\<close> with string keys is an association list in insertion order:
  \<open>map_of\<close> reads it, \<open>AList.update\<close> is \<open>d[k] = v\<close> and \<open>AList.delete\<close> removes a key.
\<close>

datatype json =
    JNull
  | JBool bool
  | JInt int
  | JStr string
  | JArr "json list"
  | JObj "(string \<times> json) list"

type_synonym 'v dict = "(string \<times> 'v) list"

text \<open>
  The exceptions the code raises or lets escape.  \<open>RuntimeError\<close> and \<open>ValueError\<close> carry
  their message; \<open>ProtonAPIError\<close> carries the dictionary it is constructed from (the
  module \<open>exceptions\<close> of the package is not part of the sources at hand; its classes are
  constructors here, none of them a subclass of another or of an exception of
  \<open>requests\<close>); \<open>Base64Error\<close> is \<open>binascii.Error\<close> and \<open>DNSException\<close> is what
  dnspython's \<open>message.from_wire\<close> raises on a body it cannot parse.
\<close>

datatype error =
    RuntimeError string
  | ValueError string
  | TypeError
  | KeyError string
  | AttributeError
  | UnboundLocalError
  | Base64Error
  | DNSException
  | NewConnectionError
  | ConnectionTimeOutError
  | TLSPinningError
  | UnknownConnectionError
  | NetworkError
  | ProtonAPIError json
  | MissingDepedencyError

text \<open>Truthiness of a Python value (\<open>bool(x)\<close>, \<open>if x\<close>).\<close>

fun py_bool :: "json \<Rightarrow> bool" where
  "py_bool JNull = False"
| "py_bool (JBool b) = b"
| "py_bool (JInt i) = (i \<noteq> 0)"
| "py_bool (JStr s) = (s \<noteq> [])"
| "py_bool (JArr xs) = (xs \<noteq> [])"
| "py_bool (JObj kvs) = (kvs \<noteq> [])"

text \<open>
  \<open>x[key]\<close> with a string key: a dictionary answers or raises \<open>KeyError\<close>; a list or a
  string wants an integer index and every other value is not subscriptable, both
  \<open>TypeError\<close>.
\<close>

fun py_getitem :: "json \<Rightarrow> string \<Rightarrow> error + json" where
  "py_getitem (JObj kvs) k = (case map_of kvs k of None \<Rightarrow> Inl (KeyError k) | Some v \<Rightarrow> Inr v)"
| "py_getitem _ k = Inl TypeError"

text \<open>\<open>d.get(key, None)\<close> on a dictionary.\<close>

definition dict_get :: "json dict \<Rightarrow> string \<Rightarrow> json" where
  "dict_get d k = (case map_of d k of None \<Rightarrow> JNull | Some v \<Rightarrow> v)"

text \<open>\<open>del d[key]\<close> raises \<open>KeyError\<close> when the key is missing.\<close>

definition dict_del :: "'v dict \<Rightarrow> string \<Rightarrow> error + 'v dict" where
  "dict_del d k = (if k \<in> fst ` set d then Inr (AList.delete k d) else Inl (KeyError k))"

subsection \<open>Strings\<close>

fun index_of :: "'a list \<Rightarrow> 'a \<Rightarrow> nat option" where
  "index_of [] x = None"
| "index_of (y # ys) x = (if x = y then Some 0 else map_option Suc (index_of ys x))"

definition lower_char :: "char \<Rightarrow> char" where
  "lower_char c =
     (case index_of ''ABCDEFGHIJKLMNOPQRSTUVWXYZ'' c of
        None \<Rightarrow> c
      | Some i \<Rightarrow> ''abcdefghijklmnopqrstuvwxyz'' ! i)"

text \<open>\<open>str.lower()\<close>, on ASCII.\<close>

definition lower :: "string \<Rightarrow> string" where
  "lower s = map lower_char s"

text \<open>\<open>s.strip(chars)\<close>: drops the characters of \<open>chars\<close> from both ends.\<close>

definition strip_chars :: "string \<Rightarrow> string \<Rightarrow> string" where
  "strip_chars chars s =
     rev (dropWhile (\<lambda>c. c \<in> set chars) (rev (dropWhile (\<lambda>c. c \<in> set chars) s)))"

definition whitespace :: string where
  "whitespace = [CHR 0x20, CHR 0x09, CHR 0x0A, CHR 0x0D, CHR 0x0B, CHR 0x0C]"

text \<open>\<open>s.strip()\<close> and \<open>s.split()\<close> with no argument work on runs of whitespace.\<close>

definition py_strip :: "string \<Rightarrow> string" where
  "py_strip s = strip_chars whitespace s"

fun split_ws :: "string \<Rightarrow> string \<Rightarrow> string list" where
  "split_ws [] cur = (if cur = [] then [] else [cur])"
| "split_ws (c # cs) cur =
     (if c \<in> set whitespace
      then (if cur = [] then split_ws cs [] else cur # split_ws cs [])
      else split_ws cs (cur @ [c]))"

definition py_split :: "string \<Rightarrow> string list" where
  "py_split s = split_ws s []"

subsection \<open>Base64 (\<open>base64.b64encode\<close>, \<open>base64.b64decode\<close>)\<close>

definition b64_alphabet :: string where
  "b64_alphabet = ''ABCDEFGHIJKLMNOPQRSTUVWXYZabcdefghijklmnopqrstuvwxyz0123456789+/''"

definition b64_char :: "nat \<Rightarrow> char" where
  "b64_char n = b64_alphabet ! (n mod 64)"

fun b64encode :: "string \<Rightarrow> string" where
  "b64encode [] = []"
| "b64encode [a] =
     (let n = (of_char a :: nat) * 16
      in [b64_char (n div 64), b64_char n, CHR ''='', CHR ''=''])"
| "b64encode [a, b] =
     (let n = ((of_char a :: nat) * 256 + of_char b) * 4
      in [b64_char (n div 4096), b64_char (n div 64), b64_char n, CHR ''=''])"
| "b64encode (a # b # c # rest) =
     (let n = (of_char a :: nat) * 65536 + of_char b * 256 + of_char c
      in [b64_char (n div 262144), b64_char (n div 4096), b64_char (n div 64), b64_char n]
         @ b64encode rest)"

text \<open>\<open>base64.urlsafe_b64encode\<close> writes \<open>-\<close> for \<open>+\<close> and \<open>_\<close> for \<open>/\<close>.\<close>

definition urlsafe_b64encode :: "string \<Rightarrow> string" where
  "urlsafe_b64encode s =
     map (\<lambda>c. if c = CHR ''+'' then CHR ''-'' else if c = CHR ''/'' then CHR ''_'' else c)
       (b64encode s)"

text \<open>
  \<open>b64decode\<close> with its default \<open>validate=False\<close> is \<open>binascii.a2b_base64\<close> in its
  lenient mode: characters outside the alphabet are skipped, a pad that completes a
  quad ends the input, and a quad left open at the end raises \<open>binascii.Error\<close>.
  \<open>a2b_loop\<close> is that loop: \<open>quad_pos\<close> counts the characters of the open quad,
  \<open>leftchar\<close> holds its bits not yet written and \<open>pads\<close> the pads seen in a row.
  It returns the final \<open>quad_pos\<close> (0 after a completing pad) and the bytes.
\<close>

fun a2b_loop :: "string \<Rightarrow> nat \<Rightarrow> nat \<Rightarrow> nat \<Rightarrow> string \<Rightarrow> nat \<times> string" where
  "a2b_loop [] quad_pos leftchar pads out = (quad_pos, out)"
| "a2b_loop (c # cs) quad_pos leftchar pads out =
     (if c = CHR ''='' then
        (if 2 \<le> quad_pos \<and> 4 \<le> quad_pos + (pads + 1) then (0, out)
         else a2b_loop cs quad_pos leftchar (if 2 \<le> quad_pos then pads + 1 else pads) out)
      else
        (case index_of b64_alphabet c of
           None \<Rightarrow> a2b_loop cs quad_pos leftchar pads out
         | Some this_ch \<Rightarrow>
             (if quad_pos = 0 then a2b_loop cs 1 this_ch 0 out
              else if quad_pos = 1 then
                a2b_loop cs 2 (this_ch mod 16) 0
                  (out @ [char_of (leftchar * 4 + this_ch div 16)])
              else if quad_pos = 2 then
                a2b_loop cs 3 (this_ch mod 4) 0
                  (out @ [char_of (leftchar * 16 + this_ch div 4)])
              else
                a2b_loop cs 0 0 0 (out @ [char_of (leftchar * 64 + this_ch)]))))"

definition b64decode :: "string \<Rightarrow> error + string" where
  "b64decode s =
     (case a2b_loop s 0 0 0 [] of (quad_pos, out) \<Rightarrow>
        if quad_pos \<noteq> 0 then Inl Base64Error else Inr out)"

section \<open>The world outside the session\<close>

text \<open>
  The HTTP client is the \<open>requests\<close> library.  A response is what the code reads of it:
  the status, the reason phrase, the headers, the body, what \<open>response.json()\<close> gives
  (\<open>None\<close> when it raises \<open>JSONDecodeError\<close>) and the cookies it sets in the jar.
\<close>

record http_response =
  status_code :: int
  reason :: string
  resp_headers :: "string dict"
  content :: string
  json_body :: "json option"
  set_cookies :: "string dict"

text \<open>
  \<open>requests.Response.__bool__\<close> is \<open>Response.ok\<close>: a response is falsy when its status
  is a client or server error (400 to 599), since \<open>raise_for_status\<close> raises then.
\<close>

definition response_ok :: "http_response \<Rightarrow> bool" where
  "response_ok r = (\<not> (400 \<le> status_code r \<and> status_code r < 600))"

datatype http_method = GET | POST | PUT | DELETE | PATCH

text \<open>
  One call \<open>fct(url=..., headers=..., json=..., timeout=..., verify=..., params=...)\<close> of a
  method of \<open>self.s\<close>, together with the headers and cookies the \<open>requests.Session\<close>
  holds at that moment and attaches to the request by itself.
\<close>

record http_request =
  req_method :: http_method
  req_url :: string
  req_headers :: "json dict option"
  req_json :: json
  req_timeout :: nat
  req_verify :: bool
  req_params :: "string dict option"
  req_session_headers :: "json dict"
  req_session_cookies :: "string dict"

datatype net_outcome =
    Responded http_response
  | ConnectionError
  | Timeout
  | PinningError
  | OtherException

text \<open>
  A DNS-over-HTTPS answer body: empty, not parseable by \<open>message.from_wire\<close>, or a DNS
  message whose answer section is a list of RRsets, each a list of records in their text
  form (\<open>str(rdata)\<close>, quotes included).
\<close>

datatype dns_body = EmptyBody | Malformed | Message "string list list"

datatype doh_outcome = DohFailed | DohResponded int dns_body

datatype io_event = Http http_request | Doh string string

text \<open>What \<open>gnupg.GPG().decrypt\<close> reports for a blob.\<close>

record gpg_result =
  valid :: bool
  fingerprint :: string
  data :: string

text \<open>
  The environment of a session.  \<open>net\<close> and \<open>doh\<close> answer the \<open>n\<close>-th network call
  (\<open>n\<close> counts the calls made so far), \<open>clock\<close> is the time at that moment, and
  \<open>dns_wire\<close> is dnspython's \<open>make_query(name, TXT).to_wire()\<close>.  The modules
  \<open>constants\<close> and \<open>srp\<close> of the package are not part of the sources at hand: the constants
  the code imports are fields here, and so are the three methods of \<open>srp.User\<close> that
  \<open>authenticate\<close> calls (as functions of the arguments the user object was given so far).
\<close>

record env =
  net :: "nat \<Rightarrow> http_request \<Rightarrow> net_outcome"
  doh :: "nat \<Rightarrow> string \<Rightarrow> string \<Rightarrow> doh_outcome"
  clock :: "nat \<Rightarrow> nat"
  dnspython_installed :: bool
  dns_wire :: "string \<Rightarrow> string"
  gpg_decrypt :: "string \<Rightarrow> gpg_result"
  srp_get_challenge :: "string \<Rightarrow> string \<Rightarrow> string"
  srp_process_challenge :: "string \<Rightarrow> string \<Rightarrow> string \<Rightarrow> string \<Rightarrow> json \<Rightarrow> string option"
  srp_verify_session :: "string \<Rightarrow> string \<Rightarrow> string \<Rightarrow> string \<Rightarrow> json \<Rightarrow> string \<Rightarrow> bool"
  DNS_HOSTS :: "string list"
  ENCODED_URLS :: "string list"
  SRP_MODULUS_KEY_FINGERPRINT :: string
  ALT_ROUTE_TTL :: nat

section \<open>Route Cache\<close>

text \<open>
  The metadata backend (\<open>MetadataBackend.get_backend()\<close>) is not part of the sources at
  hand.  The cache holds the active alternative URL with its expiry time, or nothing.
\<close>

record route_cache =
  active_alt :: "(string \<times> nat) option"

text \<open>
  Modelled from the spec: \<open>MetadataBackend.try_original_url\<close> is missing from the
  sources.  Section 4.4: it returns false iff an unexpired alt exists and \<open>allow_alt\<close> is
  true and \<open>force_skip\<close> is false.
\<close>

definition try_original_url :: "nat \<Rightarrow> route_cache \<Rightarrow> bool \<Rightarrow> bool \<Rightarrow> bool" where
  "try_original_url now rc allow_alt force_skip =
     (case active_alt rc of
        None \<Rightarrow> True
      | Some (host, expiry) \<Rightarrow> \<not> (now < expiry \<and> allow_alt \<and> \<not> force_skip))"

text \<open>
  Modelled from the spec: \<open>MetadataBackend.get_alternative_url\<close> is missing from the
  sources.  Section 4.4: it returns the current alt or empty.
\<close>

definition get_alternative_url :: "route_cache \<Rightarrow> string" where
  "get_alternative_url rc = (case active_alt rc of None \<Rightarrow> [] | Some (host, expiry) \<Rightarrow> host)"

text \<open>
  Modelled from the spec: \<open>MetadataBackend.store_alternative_route\<close> is missing from the
  sources.  Section 4.4: it records the host with a bounded TTL.
\<close>

definition store_alternative_route :: "nat \<Rightarrow> nat \<Rightarrow> route_cache \<Rightarrow> string \<Rightarrow> route_cache" where
  "store_alternative_route now ttl rc host = rc\<lparr>active_alt := Some (host, now + ttl)\<rparr>"

section \<open>The session\<close>

datatype adapter = PrimaryPins | AltPins

text \<open>
  The attributes of a \<open>Session\<close> object.  \<open>headers\<close>, \<open>cookies\<close>, \<open>mounts\<close> and
  \<open>proxies\<close> are those of the \<open>requests.Session\<close> in \<open>self.s\<close>; \<open>cookies\<close> is the jar
  as \<open>get_dict()\<close> shows it, a dictionary from cookie name to value.  \<open>captcha_token\<close> is
  \<open>None\<close> until the attribute is first assigned.  A timeout is a number here.
  \<open>wire\<close> is not an attribute: it logs every network call the session has made, oldest
  first.  Logging is left out.
\<close>

record session =
  api_url :: string
  appversion :: string
  user_agent :: string
  clientsecret :: "string option"
  timeout :: nat
  tls_pinning_enabled :: bool
  metadata :: route_cache
  allow_alternative_routes :: "bool option"
  force_skip_alternative_routing :: bool
  captcha_token :: "json option"
  session_data :: "json dict"
  headers :: "json dict"
  cookies :: "string dict"
  mounts :: "(string \<times> adapter) list"
  proxies :: "string dict option"
  wire :: "io_event list"

definition UID :: "session \<Rightarrow> json" where
  "UID s = dict_get (session_data s) ''UID''"

definition AccessToken :: "session \<Rightarrow> json" where
  "AccessToken s = dict_get (session_data s) ''AccessToken''"

definition RefreshToken :: "session \<Rightarrow> json" where
  "RefreshToken s = dict_get (session_data s) ''RefreshToken''"

definition PasswordMode :: "session \<Rightarrow> json" where
  "PasswordMode s = dict_get (session_data s) ''PasswordMode''"

text \<open>
  Modelled from the spec: the body of the property \<open>Scope\<close> is cut off at the end of
  the source file.  Section 3 lists \<open>Scope\<close> with \<open>UID\<close>, \<open>AccessToken\<close>,
  \<open>RefreshToken\<close> and \<open>PasswordMode\<close> as a field of the credentials, and the four
  properties above read their key of the session data with \<open>get(key, None)\<close>.
\<close>

definition Scope :: "session \<Rightarrow> json" where
  "Scope s = dict_get (session_data s) ''Scope''"

text \<open>\<open>"Bearer " + token\<close> needs a string.\<close>

definition bearer :: "json \<Rightarrow> error + json" where
  "bearer tok = (case tok of JStr t \<Rightarrow> Inr (JStr (''Bearer '' @ t)) | _ \<Rightarrow> Inl TypeError)"

subsection \<open>The setters of the two routing properties\<close>

definition set_enable_alternative_routing :: "session \<Rightarrow> json \<Rightarrow> session" where
  "set_enable_alternative_routing s newvalue =
     (if allow_alternative_routes s \<noteq> Some (py_bool newvalue)
      then s\<lparr>allow_alternative_routes := Some (py_bool newvalue)\<rparr>
      else s)"

definition set_force_skip_alternative_routing :: "session \<Rightarrow> json \<Rightarrow> session" where
  "set_force_skip_alternative_routing s newvalue =
     s\<lparr>force_skip_alternative_routing := py_bool newvalue\<rparr>"

subsection \<open>The human verification token\<close>

definition set_human_verification_token :: "session \<Rightarrow> json \<Rightarrow> json \<Rightarrow> session" where
  "set_human_verification_token s token_type token_value =
     s\<lparr>headers :=
         AList.update ''X-PM-Human-Verification-Token'' token_value
           (AList.update ''X-PM-Human-Verification-Token-Type'' token_type (headers s))\<rparr>"

definition del_human_verification_token :: "session \<Rightarrow> session" where
  "del_human_verification_token s =
     s\<lparr>headers :=
         AList.delete ''X-PM-Human-Verification-Token''
           (AList.delete ''X-PM-Human-Verification-Token-Type'' (headers s))\<rparr>"

section \<open>The request engine\<close>

text \<open>The keyword arguments \<open>request_params\<close> that \<open>api_request\<close> builds.\<close>

record request_params =
  rp_url :: string
  rp_endpoint :: string
  rp_headers :: "json dict option"
  rp_json :: json
  rp_timeout :: nat
  rp_verify :: bool
  rp_params :: "string dict option"

text \<open>
  \<open>__make_request\<close>: the call \<open>fct(**kwargs)\<close> goes on the wire and the environment
  answers it.  \<open>requests\<close> stores the cookies of a response in the session's jar.  The
  exceptions of \<open>requests\<close> are mapped to those of the package.
\<close>

definition make_request ::
  "env \<Rightarrow> session \<Rightarrow> http_method \<Rightarrow> request_params \<Rightarrow> (error + http_response) \<times> session" where
  "make_request E s fct kwargs =
     (let rq = \<lparr>req_method = fct,
                req_url = rp_url kwargs @ rp_endpoint kwargs,
                req_headers = rp_headers kwargs,
                req_json = rp_json kwargs,
                req_timeout = rp_timeout kwargs,
                req_verify = rp_verify kwargs,
                req_params = rp_params kwargs,
                req_session_headers = headers s,
                req_session_cookies = cookies s\<rparr>;
          s1 = s\<lparr>wire := wire s @ [Http rq]\<rparr>
      in case net E (length (wire s)) rq of
           Responded ret \<Rightarrow>
             (Inr ret,
              s1\<lparr>cookies := fold (\<lambda>kv jar. AList.update (fst kv) (snd kv) jar)
                                (set_cookies ret) (cookies s1)\<rparr>)
         | ConnectionError \<Rightarrow> (Inl NewConnectionError, s1)
         | Timeout \<Rightarrow> (Inl ConnectionTimeOutError, s1)
         | PinningError \<Rightarrow> (Inl TLSPinningError, s1)
         | OtherException \<Rightarrow> (Inl UnknownConnectionError, s1))"

subsection \<open>Alternative routes from DNS over HTTPS\<close>

text \<open>
  \<open>__generate_dns_message\<close>: the second component of its result, the query in wire
  format, urlsafe-base64 encoded with the padding stripped from the right.
\<close>

definition generate_dns_message :: "env \<Rightarrow> string \<Rightarrow> string" where
  "generate_dns_message E encoded_url =
     rev (dropWhile (\<lambda>c. c = CHR ''='') (rev (urlsafe_b64encode (dns_wire E encoded_url))))"

text \<open>
  \<open>__query_for_dns_data\<close>: \<open>None\<close> on status 404 and on any exception, the body
  otherwise.
\<close>

definition query_for_dns_data ::
  "env \<Rightarrow> session \<Rightarrow> string \<times> string \<Rightarrow> dns_body option \<times> session" where
  "query_for_dns_data E s dns_settings =
     (let dns_host = fst dns_settings;
          dns_encoded_data = snd dns_settings;
          s1 = s\<lparr>wire := wire s @ [Doh dns_host dns_encoded_data]\<rparr>
      in case doh E (length (wire s)) dns_host dns_encoded_data of
           DohFailed \<Rightarrow> (None, s1)
         | DohResponded status body \<Rightarrow> if status = 404 then (None, s1) else (Some body, s1))"

text \<open>
  \<open>executor.map\<close> gives the results in the order of its arguments, whichever worker
  ends first, so the queries are made here one after the other in that order.  The 20
  second limit of \<open>executor.map\<close> is left out.
\<close>

fun executor_map ::
  "env \<Rightarrow> session \<Rightarrow> (string \<times> string) list \<Rightarrow> dns_body option list \<times> session" where
  "executor_map E s [] = ([], s)"
| "executor_map E s (x # xs) =
     (case query_for_dns_data E s x of (r, s1) \<Rightarrow>
        (case executor_map E s1 xs of (rs, s2) \<Rightarrow> (r # rs, s2)))"

text \<open>\<open>if dns_url\<close>: \<open>None\<close> and the empty body are falsy.\<close>

fun truthy_bodies :: "dns_body option list \<Rightarrow> dns_body list" where
  "truthy_bodies [] = []"
| "truthy_bodies (None # rs) = truthy_bodies rs"
| "truthy_bodies (Some EmptyBody # rs) = truthy_bodies rs"
| "truthy_bodies (Some b # rs) = b # truthy_bodies rs"

text \<open>
  \<open>__extract_dns_answer\<close>: the loop over \<open>r.answer\<close> assigns \<open>routes\<close> anew for every
  RRset.  A Python set is modelled by a list without duplicates; its order stands for the
  order in which the set is iterated.
\<close>

definition extract_dns_answer :: "dns_body \<Rightarrow> error + string list" where
  "extract_dns_answer query_content =
     (case query_content of
        Message answer \<Rightarrow>
          Inr (fold (\<lambda>route routes. remdups (map (strip_chars [CHR 0x22]) route)) answer [])
      | _ \<Rightarrow> Inl DNSException)"

text \<open>
  The loop \<open>for response in dns_hosts_response: routes = self.__extract_dns_answer(...)\<close>
  of \<open>get_alternative_routes_from_dns\<close>.
\<close>

fun extract_each :: "dns_body list \<Rightarrow> string list \<Rightarrow> error + string list" where
  "extract_each [] routes = Inr routes"
| "extract_each (response # rest) routes =
     (case extract_dns_answer response of
        Inl e \<Rightarrow> Inl e
      | Inr routes' \<Rightarrow> extract_each rest routes')"

text \<open>The loop \<open>for encoded_url in ENCODED_URLS\<close>, from the value of \<open>routes\<close> so far.\<close>

fun encoded_urls_loop ::
  "env \<Rightarrow> session \<Rightarrow> string list \<Rightarrow> string list \<Rightarrow> (error + string list) \<times> session" where
  "encoded_urls_loop E s [] routes = (Inr routes, s)"
| "encoded_urls_loop E s (encoded_url # rest) routes =
     (let dns_encoded_data = generate_dns_message E encoded_url;
          host_and_dns = map (\<lambda>host. (host, dns_encoded_data)) (DNS_HOSTS E)
      in if DNS_HOSTS E = [] then (Inl (ValueError ''max_workers must be greater than 0''), s)
         else
           (case executor_map E s host_and_dns of (answers, s1) \<Rightarrow>
              (let dns_hosts_response = truthy_bodies answers
               in if length dns_hosts_response = 0 then encoded_urls_loop E s1 rest routes
                  else
                    (case extract_each dns_hosts_response routes of
                       Inl e \<Rightarrow> (Inl e, s1)
                     | Inr routes' \<Rightarrow>
                         if length routes' > 0 then (Inr routes', s1)
                         else encoded_urls_loop E s1 rest routes'))))"

text \<open>\<open>get_alternative_routes_from_dns\<close> called without a callback.\<close>

definition get_alternative_routes_from_dns ::
  "env \<Rightarrow> session \<Rightarrow> (error + string list) \<times> session" where
  "get_alternative_routes_from_dns E s =
     (if \<not> dnspython_installed E then (Inl MissingDepedencyError, s)
      else encoded_urls_loop E s (ENCODED_URLS E) [])"

subsection \<open>Retrying over the alternative routes\<close>

text \<open>
  The loop \<open>for route in alternative_routes\<close> of \<open>__try_with_alt_routing\<close>.  The
  variable \<open>response\<close> is \<open>None\<close> until a request returns, and the loop breaks there.
\<close>

fun alt_routes_loop ::
  "env \<Rightarrow> session \<Rightarrow> http_method \<Rightarrow> request_params \<Rightarrow> string list
     \<Rightarrow> http_response option \<times> session" where
  "alt_routes_loop E s fct request_params [] = (None, s)"
| "alt_routes_loop E s fct request_params (route # rest) =
     (let alt_url = ''https://'' @ route;
          request_params1 = request_params\<lparr>rp_url := alt_url\<rparr>;
          s1 = (if tls_pinning_enabled s then s\<lparr>mounts := (alt_url, AltPins) # mounts s\<rparr>
                else s)
      in case make_request E s1 fct request_params1 of
           (Inl e, s2) \<Rightarrow> alt_routes_loop E s2 fct request_params1 rest
         | (Inr response, s2) \<Rightarrow>
             (Some response,
              s2\<lparr>metadata :=
                   store_alternative_route (clock E (length (wire s2))) (ALT_ROUTE_TTL E)
                     (metadata s2) alt_url\<rparr>))"

text \<open>
  \<open>__try_with_alt_routing\<close>.  \<open>if not response\<close> holds for \<open>None\<close> and for a response
  that is falsy.
\<close>

definition try_with_alt_routing ::
  "env \<Rightarrow> session \<Rightarrow> http_method \<Rightarrow> request_params \<Rightarrow> (error + http_response) \<times> session" where
  "try_with_alt_routing E s fct request_params =
     (case get_alternative_routes_from_dns E s of
        (Inl e, s1) \<Rightarrow> (Inl e, s1)
      | (Inr alternative_routes, s1) \<Rightarrow>
          (case alt_routes_loop E s1 fct (request_params\<lparr>rp_verify := False\<rparr>)
                  alternative_routes of
             (None, s2) \<Rightarrow> (Inl NetworkError, s2)
           | (Some response, s2) \<Rightarrow>
               if \<not> response_ok response then (Inl NetworkError, s2)
               else (Inr response, s2)))"

subsection \<open>\<open>api_request\<close>\<close>

text \<open>The arguments of \<open>api_request\<close> but the last; \<open>None\<close> is their default.\<close>

record api_args =
  a_endpoint :: string
  a_jsondata :: json
  a_additional_headers :: "json dict option"
  a_method :: "string option"
  a_params :: "string dict option"

text \<open>What \<open>api_request\<close> returns: the decoded JSON, or the response object itself.\<close>

datatype api_result = Json json | Raw http_response

definition policy_msg :: string where
  "policy_msg =
     ''Alternative routing has not been configured before making API requests. '' @
     ''Please either enable or disable it before making any requests.''"

text \<open>The choice of \<open>fct\<close> (lines 197 to 214); \<open>None\<close> is the unknown method.\<close>

definition select_fct :: "string option \<Rightarrow> json \<Rightarrow> http_method option" where
  "select_fct m jsondata =
     (case m of
        None \<Rightarrow> (if jsondata = JNull then Some GET else Some POST)
      | Some name \<Rightarrow>
          map_of [(''get'', GET), (''post'', POST), (''put'', PUT), (''delete'', DELETE),
                  (''patch'', PATCH)] (lower name))"

text \<open>The message \<open>"Unknown method: {}".format(method)\<close>.\<close>

definition unknown_method :: "string option \<Rightarrow> string" where
  "unknown_method m =
     ''Unknown method: '' @ (case m of None \<Rightarrow> ''None'' | Some name \<Rightarrow> name)"

definition transport_errors :: "error list" where
  "transport_errors = [NewConnectionError, ConnectionTimeOutError, TLSPinningError]"

text \<open>
  Lines 263 to 299 of \<open>api_request\<close>, for a response that has been received.  When
  \<open>response.json()\<close> raises, \<open>response\<close> stays the response object and
  \<open>response["Code"]\<close> is a \<open>TypeError\<close>.  A \<open>TypeError\<close> inside the last \<open>try\<close> is
  raised again only when the status is not 200; every other exception leaves the
  function.
\<close>

definition on_type_error ::
  "int \<Rightarrow> api_result \<Rightarrow> session \<Rightarrow> error \<Rightarrow> (error + api_result) \<times> session" where
  "on_type_error status response s e =
     (if e = TypeError then (if status \<noteq> 200 then (Inl TypeError, s) else (Inr response, s))
      else (Inl e, s))"

definition check_code ::
  "int \<Rightarrow> json \<Rightarrow> session \<Rightarrow> (error + api_result) \<times> session" where
  "check_code status response s =
     (case py_getitem response ''Code'' of
        Inl e \<Rightarrow> on_type_error status (Json response) s e
      | Inr code \<Rightarrow>
          if code = JInt 1000 \<or> code = JInt 1001 then (Inr (Json response), s)
          else if code = JInt 9001 then
            (case py_getitem response ''Details'' of
               Inl e \<Rightarrow> on_type_error status (Json response) s e
             | Inr details \<Rightarrow>
                 (case py_getitem details ''HumanVerificationToken'' of
                    Inl e \<Rightarrow> on_type_error status (Json response) s e
                  | Inr token \<Rightarrow>
                      (Inl (ProtonAPIError response), s\<lparr>captcha_token := Some token\<rparr>)))
          else if code = JInt 12087 then
            (Inl (ProtonAPIError response), del_human_verification_token s)
          else (Inl (ProtonAPIError response), s))"

definition decode_response ::
  "session \<Rightarrow> http_response \<Rightarrow> (error + api_result) \<times> session" where
  "decode_response s response =
     (case json_body response of
        None \<Rightarrow>
          if status_code response \<noteq> 200 then
            (Inl (ProtonAPIError
                   (JObj [(''Code'', JInt (status_code response)),
                          (''Error'', JStr (reason response)),
                          (''Headers'',
                           JObj (map (\<lambda>kv. (fst kv, JStr (snd kv))) (resp_headers response)))])),
             s)
          else (Inr (Raw response), s)
      | Some decoded \<Rightarrow> check_code (status_code response) decoded s)"

text \<open>
  Lines 216 to 234 of \<open>api_request\<close>: the URL and \<open>verify\<close> chosen with the Route
  Cache, and the keyword arguments of the request.
\<close>

definition build_request_params :: "env \<Rightarrow> session \<Rightarrow> api_args \<Rightarrow> bool \<Rightarrow> request_params" where
  "build_request_params E s a allow =
     (let original =
            try_original_url (clock E (length (wire s))) (metadata s) allow
              (force_skip_alternative_routing s)
      in \<lparr>rp_url = (if original then api_url s else get_alternative_url (metadata s)),
          rp_endpoint = a_endpoint a,
          rp_headers = a_additional_headers a,
          rp_json = a_jsondata a,
          rp_timeout = timeout s,
          rp_verify = original,
          rp_params = a_params a\<rparr>)"

definition ping_args :: api_args where
  "ping_args = \<lparr>a_endpoint = ''/tests/ping'', a_jsondata = JNull,
                 a_additional_headers = None, a_method = None, a_params = None\<rparr>"

text \<open>
  \<open>api_request\<close> and \<open>_is_api_reacheable\<close> call each other: the probe calls
  \<open>api_request\<close> with \<open>_skip_alt_routing_for_api_check=True\<close>, and such a call never
  probes.  When the request failed and the probe finds the API reachable, \<open>response\<close>
  was never assigned: reading \<open>response.status_code\<close> is caught by the bare \<open>except\<close>,
  and \<open>response.json()\<close> then raises \<open>UnboundLocalError\<close>.
\<close>

function
  api_request :: "env \<Rightarrow> session \<Rightarrow> api_args \<Rightarrow> bool \<Rightarrow> (error + api_result) \<times> session" and
  is_api_reacheable :: "env \<Rightarrow> session \<Rightarrow> (error + bool) \<times> session"
where
  "api_request E s a skip_alt_routing_for_api_check =
     (case allow_alternative_routes s of
        None \<Rightarrow> (Inl (RuntimeError policy_msg), s)
      | Some allow \<Rightarrow>
          (case select_fct (a_method a) (a_jsondata a) of
             None \<Rightarrow> (Inl (ValueError (unknown_method (a_method a))), s)
           | Some fct \<Rightarrow>
               (let request_params = build_request_params E s a allow
                in case make_request E s fct request_params of
                     (Inr response, s1) \<Rightarrow> decode_response s1 response
                   | (Inl e, s1) \<Rightarrow>
                       if e \<notin> set transport_errors then (Inl UnknownConnectionError, s1)
                       else if \<not> allow \<or> skip_alt_routing_for_api_check
                               \<or> force_skip_alternative_routing s1
                       then (Inl e, s1)
                       else
                         (case is_api_reacheable E s1 of
                            (Inl e', s2) \<Rightarrow> (Inl e', s2)
                          | (Inr True, s2) \<Rightarrow> (Inl UnboundLocalError, s2)
                          | (Inr False, s2) \<Rightarrow>
                              (case try_with_alt_routing E s2 fct request_params of
                                 (Inl e', s3) \<Rightarrow> (Inl e', s3)
                               | (Inr response, s3) \<Rightarrow> decode_response s3 response)))))"
| "is_api_reacheable E s =
     (case api_request E s ping_args True of
        (Inl e, s1) \<Rightarrow> if e \<in> set transport_errors then (Inr False, s1) else (Inl e, s1)
      | (Inr response, s1) \<Rightarrow> (Inr True, s1))"
  by pat_completeness auto
termination
  by (relation "measure (\<lambda>x. case x of
                   Inl (E, s, a, skip) \<Rightarrow> (if skip then 0 else 2)
                 | Inr (E, s) \<Rightarrow> 1)") auto

section \<open>Creating, dumping and loading a session\<close>

text \<open>
  \<open>__init__\<close>.  \<open>cache\<close> is what the metadata backend holds when the session is
  created.  The headers \<open>requests.Session()\<close> starts with are left out.
\<close>








section \<open>Authentication\<close>

text \<open>\<open>verify_modulus\<close>.\<close>

definition verify_modulus :: "env \<Rightarrow> string \<Rightarrow> error + string" where
  "verify_modulus E armored_modulus =
     (let verified = gpg_decrypt E armored_modulus
      in if \<not> (valid verified \<and> lower (fingerprint verified) = SRP_MODULUS_KEY_FINGERPRINT E)
         then Inl (ValueError ''Invalid modulus'')
         else b64decode (py_strip (data verified)))"

text \<open>\<open>response[key]\<close> and \<open>key in response\<close> on what \<open>api_request\<close> returned.\<close>

definition result_getitem :: "api_result \<Rightarrow> string \<Rightarrow> error + json" where
  "result_getitem response k =
     (case response of Json j \<Rightarrow> py_getitem j k | Raw r \<Rightarrow> Inl TypeError)"

fun starts_with :: "string \<Rightarrow> string \<Rightarrow> bool" where
  "starts_with s [] = True"
| "starts_with [] (p # ps) = False"
| "starts_with (c # cs) (p # ps) = (c = p \<and> starts_with cs ps)"

fun has_substring :: "string \<Rightarrow> string \<Rightarrow> bool" where
  "has_substring [] p = (p = [])"
| "has_substring (c # cs) p = (starts_with (c # cs) p \<or> has_substring cs p)"

text \<open>
  A dictionary is asked for the key, a list for the element and a string for the
  substring; iterating a response object yields chunks of bytes, none of them equal to
  a string; the other values are not iterable.
\<close>

definition result_contains :: "api_result \<Rightarrow> string \<Rightarrow> error + bool" where
  "result_contains response k =
     (case response of
        Raw r \<Rightarrow> Inr False
      | Json (JObj kvs) \<Rightarrow> Inr (k \<in> fst ` set kvs)
      | Json (JArr xs) \<Rightarrow> Inr (JStr k \<in> set xs)
      | Json (JStr t) \<Rightarrow> Inr (has_substring t k)
      | Json _ \<Rightarrow> Inl TypeError)"

definition b64decode_value :: "json \<Rightarrow> error + string" where
  "b64decode_value v = (case v of JStr t \<Rightarrow> b64decode t | _ \<Rightarrow> Inl TypeError)"

definition with_clientsecret :: "session \<Rightarrow> json dict \<Rightarrow> json dict" where
  "with_clientsecret s payload =
     (case clientsecret s of
        None \<Rightarrow> payload
      | Some secret \<Rightarrow>
          if secret \<noteq> [] then payload @ [(''ClientSecret'', JStr secret)] else payload)"

text \<open>\<open>logout\<close>.\<close>

definition logout_args :: api_args where
  "logout_args = \<lparr>a_endpoint = ''/auth'', a_jsondata = JNull,
                   a_additional_headers = None, a_method = Some ''DELETE'', a_params = None\<rparr>"

definition logout :: "env \<Rightarrow> session \<Rightarrow> (error + unit) \<times> session" where
  "logout E s =
     (if session_data s \<noteq> [] then
        (case api_request E s logout_args False of
           (Inl e, s1) \<Rightarrow> (Inl e, s1)
         | (Inr response, s1) \<Rightarrow>
             (case dict_del (headers s1) ''Authorization'' of
                Inl e \<Rightarrow> (Inl e, s1)
              | Inr h1 \<Rightarrow>
                  (case dict_del h1 ''x-pm-uid'' of
                     Inl e \<Rightarrow> (Inl e, s1\<lparr>headers := h1\<rparr>)
                   | Inr h2 \<Rightarrow> (Inr (), s1\<lparr>headers := h2, session_data := []\<rparr>))))
      else (Inr (), s))"

text \<open>
  Lines 389 to 411 of \<open>authenticate\<close>: from the answer of \<open>/auth/info\<close> to the payload
  of \<open>/auth\<close>.  The result also holds what the SRP user object was given: the modulus,
  the salt, the server challenge and the version.
\<close>

record srp_user =
  u_modulus :: string
  u_salt :: string
  u_server_challenge :: string
  u_version :: json

definition srp_payload ::
  "env \<Rightarrow> session \<Rightarrow> string \<Rightarrow> string \<Rightarrow> api_result \<Rightarrow> error + (json \<times> srp_user)" where
  "srp_payload E s username password info_response =
     (case result_getitem info_response ''Modulus'' of Inl e \<Rightarrow> Inl e | Inr armored \<Rightarrow>
     (case (case armored of JStr t \<Rightarrow> verify_modulus E t | _ \<Rightarrow> Inl TypeError) of
        Inl e \<Rightarrow> Inl e | Inr modulus \<Rightarrow>
     (case result_getitem info_response ''ServerEphemeral'' of Inl e \<Rightarrow> Inl e | Inr se \<Rightarrow>
     (case b64decode_value se of Inl e \<Rightarrow> Inl e | Inr server_challenge \<Rightarrow>
     (case result_getitem info_response ''Salt'' of Inl e \<Rightarrow> Inl e | Inr sa \<Rightarrow>
     (case b64decode_value sa of Inl e \<Rightarrow> Inl e | Inr salt \<Rightarrow>
     (case result_getitem info_response ''Version'' of Inl e \<Rightarrow> Inl e | Inr version \<Rightarrow>
     (let client_challenge = srp_get_challenge E password modulus
      in case srp_process_challenge E password modulus salt server_challenge version of
           None \<Rightarrow> Inl (ValueError ''Invalid challenge'')
         | Some client_proof \<Rightarrow>
             (case result_getitem info_response ''SRPSession'' of
                Inl e \<Rightarrow> Inl e
              | Inr srp_session \<Rightarrow>
                  Inr (JObj (with_clientsecret s
                               [(''Username'', JStr username),
                                (''ClientEphemeral'', JStr (b64encode client_challenge)),
                                (''ClientProof'', JStr (b64encode client_proof)),
                                (''SRPSession'', srp_session)]),
                       \<lparr>u_modulus = modulus, u_salt = salt,
                        u_server_challenge = server_challenge,
                        u_version = version\<rparr>))))))))))"

text \<open>
  Lines 415 to 428 of \<open>authenticate\<close>: from the answer of \<open>/auth\<close> to the new
  session data.
\<close>

definition new_session_data ::
  "env \<Rightarrow> string \<Rightarrow> srp_user \<Rightarrow> api_result \<Rightarrow> error + json dict" where
  "new_session_data E password usr auth_response =
     (case result_contains auth_response ''ServerProof'' of
        Inl e \<Rightarrow> Inl e
      | Inr present \<Rightarrow>
     (if \<not> present then Inl (ValueError ''Invalid password'') else
     (case result_getitem auth_response ''ServerProof'' of Inl e \<Rightarrow> Inl e | Inr sp \<Rightarrow>
     (case b64decode_value sp of Inl e \<Rightarrow> Inl e | Inr server_proof \<Rightarrow>
     (if \<not> srp_verify_session E password (u_modulus usr) (u_salt usr)
              (u_server_challenge usr) (u_version usr) server_proof
      then Inl (ValueError ''Invalid server proof'') else
     (case result_getitem auth_response ''UID'' of Inl e \<Rightarrow> Inl e | Inr uid \<Rightarrow>
     (case result_getitem auth_response ''AccessToken'' of Inl e \<Rightarrow> Inl e | Inr at \<Rightarrow>
     (case result_getitem auth_response ''RefreshToken'' of Inl e \<Rightarrow> Inl e | Inr rt \<Rightarrow>
     (case result_getitem auth_response ''PasswordMode'' of Inl e \<Rightarrow> Inl e | Inr pm \<Rightarrow>
     (case result_getitem auth_response ''Scope'' of Inl e \<Rightarrow> Inl e | Inr sc \<Rightarrow>
     (case sc of
        JStr t \<Rightarrow>
          Inr [(''UID'', uid), (''AccessToken'', at), (''RefreshToken'', rt),
               (''PasswordMode'', pm), (''Scope'', JArr (map JStr (py_split t)))]
      | _ \<Rightarrow> Inl AttributeError)))))))))))"

text \<open>\<open>authenticate\<close>, and the arguments of its two requests.\<close>

definition auth_info_args :: "session \<Rightarrow> string \<Rightarrow> api_args" where
  "auth_info_args s username =
     \<lparr>a_endpoint = ''/auth/info'',
      a_jsondata = JObj (with_clientsecret s [(''Username'', JStr username)]),
      a_additional_headers = None, a_method = None, a_params = None\<rparr>"

definition auth_args :: "json \<Rightarrow> api_args" where
  "auth_args payload =
     \<lparr>a_endpoint = ''/auth'', a_jsondata = payload,
      a_additional_headers = None, a_method = None, a_params = None\<rparr>"

definition authenticate ::
  "env \<Rightarrow> session \<Rightarrow> string \<Rightarrow> string \<Rightarrow> (error + json) \<times> session" where
  "authenticate E s username password =
     (case logout E s of
        (Inl e, s1) \<Rightarrow> (Inl e, s1)
      | (Inr u, s1) \<Rightarrow>
     (case api_request E s1 (auth_info_args s1 username) False of
        (Inl e, s2) \<Rightarrow> (Inl e, s2)
      | (Inr info_response, s2) \<Rightarrow>
     (case srp_payload E s2 username password info_response of
        Inl e \<Rightarrow> (Inl e, s2)
      | Inr (payload, usr) \<Rightarrow>
     (case api_request E s2 (auth_args payload) False of
        (Inl e, s3) \<Rightarrow> (Inl e, s3)
      | (Inr auth_response, s3) \<Rightarrow>
     (case new_session_data E password usr auth_response of
        Inl e \<Rightarrow> (Inl e, s3)
      | Inr sd \<Rightarrow>
          (let s4 = s3\<lparr>session_data := sd\<rparr>
           in if UID s4 \<noteq> JNull then
                (let s5 = s4\<lparr>headers := AList.update ''x-pm-uid'' (UID s4) (headers s4)\<rparr>
                 in case bearer (AccessToken s5) of
                      Inl e \<Rightarrow> (Inl e, s5)
                    | Inr b \<Rightarrow>
                        (Inr (Scope s5),
                         s5\<lparr>headers := AList.update ''Authorization'' b (headers s5)\<rparr>))
              else (Inr (Scope s4), s4)))))))"

text \<open>\<open>provide_2fa\<close>.\<close>

definition provide_2fa :: "env \<Rightarrow> session \<Rightarrow> json \<Rightarrow> (error + json) \<times> session" where
  "provide_2fa E s code =
     (case api_request E s
             \<lparr>a_endpoint = ''/auth/2fa'', a_jsondata = JObj [(''TwoFactorCode'', code)],
              a_additional_headers = None, a_method = None, a_params = None\<rparr> False of
        (Inl e, s1) \<Rightarrow> (Inl e, s1)
      | (Inr ret, s1) \<Rightarrow>
          (case result_getitem ret ''Scope'' of
             Inl e \<Rightarrow> (Inl e, s1)
           | Inr sc \<Rightarrow>
               (let s2 = s1\<lparr>session_data := AList.update ''Scope'' sc (session_data s1)\<rparr>
                in (Inr (Scope s2), s2))))"

text \<open>\<open>refresh\<close>.\<close>

definition refresh_args :: "session \<Rightarrow> api_args" where
  "refresh_args s =
     \<lparr>a_endpoint = ''/auth/refresh'',
      a_jsondata = JObj [(''ResponseType'', JStr ''token''),
                         (''GrantType'', JStr ''refresh_token''),
                         (''RefreshToken'', RefreshToken s),
                         (''RedirectURI'', JStr ''http://protonmail.ch'')],
      a_additional_headers = None, a_method = None, a_params = None\<rparr>"

definition refresh :: "env \<Rightarrow> session \<Rightarrow> (error + unit) \<times> session" where
  "refresh E s =
     (case api_request E s (refresh_args s) False of
        (Inl e, s1) \<Rightarrow> (Inl e, s1)
      | (Inr refresh_response, s1) \<Rightarrow>
     (case result_getitem refresh_response ''AccessToken'' of
        Inl e \<Rightarrow> (Inl e, s1)
      | Inr at \<Rightarrow>
     (let s2 = s1\<lparr>session_data := AList.update ''AccessToken'' at (session_data s1)\<rparr>
      in case result_getitem refresh_response ''RefreshToken'' of
           Inl e \<Rightarrow> (Inl e, s2)
         | Inr rt \<Rightarrow>
     (let s3 = s2\<lparr>session_data := AList.update ''RefreshToken'' rt (session_data s2)\<rparr>
      in case bearer (AccessToken s3) of
           Inl e \<Rightarrow> (Inl e, s3)
         | Inr b \<Rightarrow> (Inr (), s3\<lparr>headers := AList.update ''Authorization'' b (headers s3)\<rparr>)))))"

section \<open>What a session sends\<close>

text \<open>
  The two authentication headers of the \<open>requests.Session\<close>, the calls a session made
  between two of its states, and whether a call on the wire was sent with a given
  \<open>Authorization\<close> header of the session (the DNS queries do not go through the
  session).
\<close>

definition auth_header :: "session \<Rightarrow> json option" where
  "auth_header s = map_of (headers s) ''Authorization''"

definition uid_header :: "session \<Rightarrow> json option" where
  "uid_header s = map_of (headers s) ''x-pm-uid''"

definition sent_since :: "session \<Rightarrow> session \<Rightarrow> io_event list" where
  "sent_since s s' = drop (length (wire s)) (wire s')"

fun carries_auth :: "json option \<Rightarrow> io_event \<Rightarrow> bool" where
  "carries_auth v (Http rq) = (map_of (req_session_headers rq) ''Authorization'' = v)"
| "carries_auth v (Doh host query) = True"

text \<open>
  What no request changes: the stored session data, the routing policy, the identity
  of the client and the two authentication headers.  Every call made in between was
  appended to the log and carried the \<open>Authorization\<close> header of the session.
\<close>

definition unchanged :: "session \<Rightarrow> session \<Rightarrow> bool" where
  "unchanged s s' \<longleftrightarrow>
     session_data s' = session_data s
     \<and> allow_alternative_routes s' = allow_alternative_routes s
     \<and> force_skip_alternative_routing s' = force_skip_alternative_routing s
     \<and> clientsecret s' = clientsecret s
     \<and> tls_pinning_enabled s' = tls_pinning_enabled s
     \<and> api_url s' = api_url s
     \<and> appversion s' = appversion s
     \<and> user_agent s' = user_agent s
     \<and> timeout s' = timeout s
     \<and> auth_header s' = auth_header s
     \<and> uid_header s' = uid_header s
     \<and> wire s' = wire s @ sent_since s s'
     \<and> list_all (carries_auth (auth_header s)) (sent_since s s')"



text \<open>
  The \<open>ProtonAPIError\<close> that \<open>api_request\<close> builds from a response that is not JSON:
  its status, reason and headers.
\<close>

definition status_error :: "http_response \<Rightarrow> error" where
  "status_error response =
     ProtonAPIError
       (JObj [(''Code'', JInt (status_code response)),
              (''Error'', JStr (reason response)),
              (''Headers'',
               JObj (map (\<lambda>kv. (fst kv, JStr (snd kv))) (resp_headers response)))])"

section \<open>Sequences of calls on a session\<close>


text \<open>
  The calls a user of the class can make on a session, and the session each leaves
  behind, whether it returns or raises.
\<close>

datatype call =
    SetEnableAlternativeRouting json
  | SetForceSkipAlternativeRouting json
  | SetHumanVerificationToken json json
  | DelHumanVerificationToken
  | ApiRequest api_args bool
  | GetAlternativeRoutesFromDns
  | Authenticate string string
  | Provide2fa json
  | Logout
  | Refresh

fun perform :: "env \<Rightarrow> session \<Rightarrow> call \<Rightarrow> session" where
  "perform E s (SetEnableAlternativeRouting v) = set_enable_alternative_routing s v"
| "perform E s (SetForceSkipAlternativeRouting v) = set_force_skip_alternative_routing s v"
| "perform E s (SetHumanVerificationToken t v) = set_human_verification_token s t v"
| "perform E s DelHumanVerificationToken = del_human_verification_token s"
| "perform E s (ApiRequest a skip) = snd (api_request E s a skip)"
| "perform E s GetAlternativeRoutesFromDns = snd (get_alternative_routes_from_dns E s)"
| "perform E s (Authenticate username password) = snd (authenticate E s username password)"
| "perform E s (Provide2fa code) = snd (provide_2fa E s code)"
| "perform E s Logout = snd (logout E s)"
| "perform E s Refresh = snd (refresh E s)"

fun perform_all :: "env \<Rightarrow> session \<Rightarrow> call list \<Rightarrow> session" where
  "perform_all E s [] = s"
| "perform_all E s (c # cs) = perform_all E (perform E s c) cs"

section \<open>Concrete sessions and environments\<close>

text \<open>
  An environment built from a script for the API hosts and one for the DNS hosts.  Its
  GPG accepts the blob \<open>signed\<close>, signed by the pinned key and holding the base64 text of
  \<open>salt\<close>; its SRP user accepts the server proof \<open>M2\<close>.
\<close>

definition scripted_env ::
  "(nat \<Rightarrow> http_request \<Rightarrow> net_outcome) \<Rightarrow> (nat \<Rightarrow> string \<Rightarrow> string \<Rightarrow> doh_outcome) \<Rightarrow> env" where
  "scripted_env n d =
     \<lparr>net = n,
      doh = d,
      clock = (\<lambda>k. 0),
      dnspython_installed = True,
      dns_wire = (\<lambda>name. name),
      gpg_decrypt = (\<lambda>blob. \<lparr>valid = (blob = ''signed''), fingerprint = ''AB12'',
                               data = ''c2FsdA==''\<rparr>),
      srp_get_challenge = (\<lambda>password modulus. ''A''),
      srp_process_challenge = (\<lambda>password modulus salt challenge version. Some ''M1''),
      srp_verify_session = (\<lambda>password modulus salt challenge version m2. m2 = ''M2''),
      DNS_HOSTS = [''https://dns1.example'', ''https://dns2.example''],
      ENCODED_URLS = [''name1'', ''name2''],
      SRP_MODULUS_KEY_FINGERPRINT = ''ab12'',
      ALT_ROUTE_TTL = 10\<rparr>"

definition json_response :: "int \<Rightarrow> json \<Rightarrow> http_response" where
  "json_response status body =
     \<lparr>status_code = status, reason = ''reason'', resp_headers = [], content = [],
      json_body = Some body, set_cookies = []\<rparr>"

definition html_response :: "int \<Rightarrow> http_response" where
  "html_response status =
     \<lparr>status_code = status, reason = ''reason'', resp_headers = [(''Server'', ''x'')],
      content = ''<html>'', json_body = None, set_cookies = []\<rparr>"

definition no_doh :: "nat \<Rightarrow> string \<Rightarrow> string \<Rightarrow> doh_outcome" where
  "no_doh k host query = DohFailed"

text \<open>A session as \<open>__init__\<close> leaves it, and one that holds credentials.\<close>

definition fresh_session :: session where
  "fresh_session =
     \<lparr>api_url = ''https://api.example'',
      appversion = ''Other'',
      user_agent = ''None'',
      clientsecret = None,
      timeout = 10,
      tls_pinning_enabled = True,
      metadata = \<lparr>active_alt = None\<rparr>,
      allow_alternative_routes = None,
      force_skip_alternative_routing = False,
      captcha_token = None,
      session_data = [],
      headers = [(''x-pm-appversion'', JStr ''Other''), (''User-Agent'', JStr ''None'')],
      cookies = [],
      mounts = [(''https://api.example'', PrimaryPins)],
      proxies = None,
      wire = []\<rparr>"

definition logged_in :: "bool \<Rightarrow> session" where
  "logged_in alt =
     fresh_session
       \<lparr>allow_alternative_routes := Some alt,
        session_data := [(''UID'', JStr ''u1''), (''AccessToken'', JStr ''a1''),
                         (''RefreshToken'', JStr ''r1''), (''PasswordMode'', JInt 1),
                         (''Scope'', JArr [JStr ''mail'', JStr ''vpn''])],
        headers := [(''x-pm-appversion'', JStr ''Other''), (''User-Agent'', JStr ''None''),
                    (''x-pm-uid'', JStr ''u1''), (''Authorization'', JStr ''Bearer a1'')],
        cookies := [(''Session-Id'', ''c1'')]\<rparr>"

text \<open>The API host cannot be reached.\<close>

definition unreachable :: "nat \<Rightarrow> http_request \<Rightarrow> net_outcome" where
  "unreachable k rq = ConnectionError"

text \<open>Every request is answered with the success envelope.\<close>

definition always_ok :: "nat \<Rightarrow> http_request \<Rightarrow> net_outcome" where
  "always_ok k rq = Responded (json_response 200 (JObj [(''Code'', JInt 1000)]))"

text \<open>Every request is answered with a new pair of tokens.\<close>

definition token_api :: "nat \<Rightarrow> http_request \<Rightarrow> net_outcome" where
  "token_api k rq =
     Responded (json_response 200
       (JObj [(''Code'', JInt 1000), (''AccessToken'', JStr ''a2''),
              (''RefreshToken'', JStr ''r2'')]))"

text \<open>
  An API that starts the SRP exchange and answers \<open>/auth\<close> without a \<open>ServerProof\<close>.
\<close>

definition bad_password_api :: "nat \<Rightarrow> http_request \<Rightarrow> net_outcome" where
  "bad_password_api k rq =
     (if req_url rq = ''https://api.example/auth/info'' then
        Responded (json_response 200
          (JObj [(''Code'', JInt 1000), (''Modulus'', JStr ''signed''),
                 (''ServerEphemeral'', JStr ''AAAA''), (''Salt'', JStr ''c2FsdA==''),
                 (''Version'', JInt 4), (''SRPSession'', JStr ''sess'')]))
      else Responded (json_response 200 (JObj [(''Code'', JInt 1000)])))"

text \<open>
  The API host cannot be reached, and the alternative host answers every request with
  an HTML page and the given status.
\<close>

definition alt_host_only :: "int \<Rightarrow> nat \<Rightarrow> http_request \<Rightarrow> net_outcome" where
  "alt_host_only status k rq =
     (if starts_with (req_url rq) ''https://alt1.example'' then Responded (html_response status)
      else ConnectionError)"

definition quoted :: "string \<Rightarrow> string" where
  "quoted t = CHR 0x22 # t @ [CHR 0x22]"

text \<open>The first DNS host publishes one route, the second cannot be reached.\<close>

definition one_route :: "nat \<Rightarrow> string \<Rightarrow> string \<Rightarrow> doh_outcome" where
  "one_route k host query =
     (if host = ''https://dns1.example''
      then DohResponded 200 (Message [[quoted ''alt1.example'']])
      else DohFailed)"

text \<open>
  For the first name, the first DNS host publishes one route and the second answers
  with an empty answer section; for the second name neither can be reached.
\<close>

definition route_then_nothing :: "nat \<Rightarrow> string \<Rightarrow> string \<Rightarrow> doh_outcome" where
  "route_then_nothing k host query =
     (if k = 0 then DohResponded 200 (Message [[quoted ''alt1.example'']])
      else if k = 1 then DohResponded 200 (Message [])
      else DohFailed)"

definition config_args :: api_args where
  "config_args = \<lparr>a_endpoint = ''/vpn/config'', a_jsondata = JNull,
                   a_additional_headers = None, a_method = None, a_params = None\<rparr>"

text \<open>The keyword arguments of a \<open>GET\<close> of \<open>/vpn/config\<close> on the API host.\<close>

definition config_params :: "session \<Rightarrow> request_params" where
  "config_params s =
     \<lparr>rp_url = api_url s, rp_endpoint = ''/vpn/config'', rp_headers = None, rp_json = JNull,
      rp_timeout = timeout s, rp_verify = True, rp_params = None\<rparr>"

text \<open>
  A GPG that reports every blob as signed by the pinned key, with a plaintext that is
  not base64.
\<close>

definition undecodable_gpg :: env where
  "undecodable_gpg =
     (scripted_env unreachable no_doh)
       \<lparr>gpg_decrypt := (\<lambda>blob. \<lparr>valid = True, fingerprint = ''AB12'', data = ''A''\<rparr>)\<rparr>"

text \<open>
  A session that was created, given its routing policy and refreshed without ever having
  authenticated, against an API that hands out tokens all the same.
\<close>

definition refreshed_without_login :: session where
  "refreshed_without_login =
     snd (refresh (scripted_env token_api no_doh)
            (set_enable_alternative_routing fresh_session (JBool False)))"

text \<open>The API host answers every request with an HTML page and the given status.\<close>

definition error_page_api :: "int \<Rightarrow> nat \<Rightarrow> http_request \<Rightarrow> net_outcome" where
  "error_page_api status k rq = Responded (html_response status)"

text \<open>
  An API that starts the SRP exchange and answers \<open>/auth\<close> with credentials and the
  server proof \<open>M2\<close> in base64.
\<close>

definition good_password_api :: "nat \<Rightarrow> http_request \<Rightarrow> net_outcome" where
  "good_password_api k rq =
     (if req_url rq = ''https://api.example/auth/info'' then
        Responded (json_response 200
          (JObj [(''Code'', JInt 1000), (''Modulus'', JStr ''signed''),
                 (''ServerEphemeral'', JStr ''AAAA''), (''Salt'', JStr ''c2FsdA==''),
                 (''Version'', JInt 4), (''SRPSession'', JStr ''sess'')]))
      else if req_url rq = ''https://api.example/auth'' \<and> req_method rq = POST then
        Responded (json_response 200
          (JObj [(''Code'', JInt 1000), (''UID'', JStr ''u2''), (''AccessToken'', JStr ''a2''),
                 (''RefreshToken'', JStr ''r2''), (''PasswordMode'', JInt 1),
                 (''Scope'', JStr ''mail vpn''), (''ServerProof'', JStr ''TTI='')]))
      else Responded (json_response 200 (JObj [(''Code'', JInt 1000)])))"

section \<open>What a request leaves unchanged\<close>

declare api_request.simps [simp del] is_api_reacheable.simps [simp del]

lemma unchanged_refl: "unchanged s s"
  by (simp add: unchanged_def sent_since_def)

lemma unchanged_trans:
  assumes "unchanged s s1" and "unchanged s1 s2"
  shows "unchanged s s2"
proof -
  from assms have w1: "wire s1 = wire s @ sent_since s s1"
    and w2: "wire s2 = wire s1 @ sent_since s1 s2"
    by (simp_all add: unchanged_def)
  have split: "sent_since s s2 = sent_since s s1 @ sent_since s1 s2"
  proof -
    have e: "wire s2 = wire s @ sent_since s s1 @ sent_since s1 s2"
      using w1 w2 by simp
    have "drop (length (wire s)) (wire s @ sent_since s s1 @ sent_since s1 s2)
            = sent_since s s1 @ sent_since s1 s2"
      by simp
    with e show ?thesis by (metis sent_since_def)
  qed
  from assms show ?thesis
    unfolding unchanged_def split using w1 w2 by auto
qed

lemma make_request_unchanged:
  assumes "make_request E s fct kw = (r, s')"
  shows "unchanged s s'"
  using assms
  by (auto simp: make_request_def Let_def unchanged_def sent_since_def auth_header_def
      uid_header_def split: net_outcome.splits)

lemma query_for_dns_data_unchanged:
  assumes "query_for_dns_data E s x = (r, s')"
  shows "unchanged s s'"
  using assms
  by (auto simp: query_for_dns_data_def Let_def unchanged_def sent_since_def auth_header_def
      uid_header_def split: doh_outcome.splits if_splits)

lemma executor_map_unchanged:
  "executor_map E s xs = (rs, s') \<Longrightarrow> unchanged s s'"
proof (induction xs arbitrary: s rs s')
  case Nil
  then show ?case by (simp add: unchanged_refl)
next
  case (Cons x xs)
  then show ?case
    by (auto split: prod.splits
        intro: unchanged_trans [OF query_for_dns_data_unchanged])
qed

lemma encoded_urls_loop_unchanged:
  "encoded_urls_loop E s names routes = (r, s') \<Longrightarrow> unchanged s s'"
proof (induction names arbitrary: s routes r s')
  case Nil
  then show ?case by (simp add: unchanged_refl)
next
  case (Cons name names)
  then show ?case
    by (auto simp: Let_def unchanged_refl split: prod.splits if_splits sum.splits
        dest!: executor_map_unchanged intro: unchanged_trans)
qed

lemma get_alternative_routes_from_dns_unchanged:
  "get_alternative_routes_from_dns E s = (r, s') \<Longrightarrow> unchanged s s'"
  by (auto simp: get_alternative_routes_from_dns_def unchanged_refl split: if_splits
      dest: encoded_urls_loop_unchanged)

lemma mount_unchanged: "unchanged s (s\<lparr>mounts := m\<rparr>)"
  by (simp add: unchanged_def sent_since_def auth_header_def uid_header_def)

lemma metadata_unchanged: "unchanged s (s\<lparr>metadata := m\<rparr>)"
  by (simp add: unchanged_def sent_since_def auth_header_def uid_header_def)

lemma alt_routes_loop_step:
  assumes "make_request E s1 fct kw1 = (res, s2)"
    and "unchanged s s1"
    and "\<And>e. res = Inl e \<Longrightarrow> unchanged s2 s'"
    and "\<And>resp. res = Inr resp \<Longrightarrow> unchanged s2 s'"
  shows "unchanged s s'"
proof -
  have "unchanged s1 s2" by (rule make_request_unchanged [OF assms(1)])
  moreover have "unchanged s2 s'" using assms(3,4) by (cases res) auto
  ultimately show ?thesis using assms(2) by (blast intro: unchanged_trans)
qed

lemma alt_routes_loop_unchanged:
  "alt_routes_loop E s fct kw routes = (r, s') \<Longrightarrow> unchanged s s'"
proof (induction routes arbitrary: s kw r s')
  case Nil
  then show ?case by (simp add: unchanged_refl)
next
  case (Cons route routes)
  show ?case
  proof (cases "tls_pinning_enabled s")
    case True
    with Cons.prems show ?thesis
      by (auto simp: Let_def split: prod.splits sum.splits
          elim!: alt_routes_loop_step [OF _ mount_unchanged]
          intro: Cons.IH metadata_unchanged)
  next
    case False
    with Cons.prems show ?thesis
      by (auto simp: Let_def split: prod.splits sum.splits
          elim!: alt_routes_loop_step [OF _ unchanged_refl]
          intro: Cons.IH metadata_unchanged)
  qed
qed

lemma try_with_alt_routing_unchanged:
  "try_with_alt_routing E s fct kw = (r, s') \<Longrightarrow> unchanged s s'"
  by (auto simp: try_with_alt_routing_def split: prod.splits sum.splits option.splits if_splits
      dest!: get_alternative_routes_from_dns_unchanged alt_routes_loop_unchanged
      intro: unchanged_trans)

lemma on_type_error_unchanged:
  "on_type_error st resp s e = (r, s') \<Longrightarrow> s' = s"
  by (auto simp: on_type_error_def split: if_splits)

lemma check_code_unchanged:
  "check_code st j s = (r, s') \<Longrightarrow> unchanged s s'"
  by (auto simp: check_code_def unchanged_refl del_human_verification_token_def
      unchanged_def sent_since_def auth_header_def uid_header_def
      split: sum.splits if_splits dest!: on_type_error_unchanged)

lemma decode_response_unchanged:
  "decode_response s resp = (r, s') \<Longrightarrow> unchanged s s'"
  by (auto simp: decode_response_def unchanged_refl split: option.splits if_splits
      dest: check_code_unchanged)

lemma api_request_skip_unchanged:
  assumes "api_request E s a True = (r, s')"
  shows "unchanged s s'"
  using assms
  apply (subst (asm) api_request.simps)
  apply (auto simp: Let_def unchanged_refl split: option.splits sum.splits prod.splits if_splits
      dest!: make_request_unchanged decode_response_unchanged intro: unchanged_trans)
  done

lemma is_api_reacheable_unchanged:
  assumes "is_api_reacheable E s = (r, s')"
  shows "unchanged s s'"
  using assms
  apply (subst (asm) is_api_reacheable.simps)
  apply (auto split: prod.splits sum.splits if_splits dest: api_request_skip_unchanged)
  done

lemma api_request_unchanged:
  assumes "api_request E s a skip = (r, s')"
  shows "unchanged s s'"
  using assms
  apply (subst (asm) api_request.simps)
  apply (auto simp: Let_def unchanged_refl
      split: option.splits sum.splits prod.splits if_splits bool.splits
      dest!: make_request_unchanged decode_response_unchanged is_api_reacheable_unchanged
        try_with_alt_routing_unchanged
      intro: unchanged_trans)
  done

section \<open>Running the model on concrete input\<close>

text \<open>The definitions the simplifier unfolds to run a call on a concrete session.\<close>

lemmas run_defs = api_request.simps is_api_reacheable.simps build_request_params_def
  select_fct_def lower_def lower_char_def
  try_original_url_def get_alternative_url_def store_alternative_route_def make_request_def
  transport_errors_def Let_def try_with_alt_routing_def get_alternative_routes_from_dns_def
  query_for_dns_data_def generate_dns_message_def decode_response_def check_code_def
  on_type_error_def extract_dns_answer_def response_ok_def strip_chars_def
  del_human_verification_token_def

lemmas example_defs = scripted_env_def json_response_def html_response_def no_doh_def
  fresh_session_def logged_in_def unreachable_def always_ok_def token_api_def
  bad_password_api_def alt_host_only_def quoted_def one_route_def route_then_nothing_def
  config_args_def logout_args_def ping_args_def config_params_def undecodable_gpg_def
  refreshed_without_login_def error_page_api_def good_password_api_def

lemmas auth_defs = authenticate_def logout_def auth_info_args_def auth_args_def
  with_clientsecret_def srp_payload_def new_session_data_def result_getitem_def
  result_contains_def verify_modulus_def b64decode_value_def b64decode_def b64_alphabet_def
  b64_char_def py_strip_def whitespace_def bearer_def UID_def AccessToken_def Scope_def
  RefreshToken_def dict_get_def py_split_def

section \<open>Logging out\<close>

lemma dict_del_present:
  "map_of d k \<noteq> None \<Longrightarrow> dict_del d k = Inr (AList.delete k d)"
  by (auto simp: dict_del_def map_of_eq_None_iff)

lemma logout_failure:
  assumes "session_data s \<noteq> []"
    and "api_request E s logout_args False = (Inl e, s1)"
  shows "logout E s = (Inl e, s1) \<and> session_data s1 = session_data s
         \<and> auth_header s1 = auth_header s \<and> uid_header s1 = uid_header s"
  using assms api_request_unchanged [OF assms(2)]
  by (simp add: logout_def unchanged_def)

lemma logout_success:
  assumes "session_data s \<noteq> []"
    and "api_request E s logout_args False = (Inr r, s1)"
    and "auth_header s \<noteq> None" and "uid_header s \<noteq> None"
  shows "session_data (snd (logout E s)) = [] \<and> auth_header (snd (logout E s)) = None
         \<and> uid_header (snd (logout E s)) = None \<and> fst (logout E s) = Inr ()"
proof -
  have u: "unchanged s s1" by (rule api_request_unchanged [OF assms(2)])
  then have a: "map_of (headers s1) ''Authorization'' \<noteq> None"
    and b: "map_of (headers s1) ''x-pm-uid'' \<noteq> None"
    using assms(3,4) by (simp_all add: unchanged_def auth_header_def uid_header_def)
  have b': "map_of (AList.delete ''Authorization'' (headers s1)) ''x-pm-uid'' \<noteq> None"
    using b by simp
  show ?thesis
    using assms(1,2)
    by (simp add: logout_def dict_del_present [OF a] dict_del_present [OF b']
        auth_header_def uid_header_def delete_conv')
qed

lemma logout_result:
  assumes "logout E s = (Inr u, s1)"
  shows "session_data s1 = []
         \<and> (session_data s = [] \<longrightarrow> s1 = s)
         \<and> (session_data s \<noteq> [] \<longrightarrow> auth_header s1 = None \<and> uid_header s1 = None)"
  using assms
  by (auto simp: logout_def dict_del_def auth_header_def uid_header_def delete_conv'
      split: if_splits prod.splits sum.splits)

lemma delete_unreachable:
  "api_request (scripted_env unreachable no_doh) (logged_in False) logout_args False
     = (Inl NewConnectionError, snd (logout (scripted_env unreachable no_doh) (logged_in False)))"
  by (simp add: logout_def run_defs example_defs)

lemma delete_answered:
  "api_request (scripted_env always_ok no_doh) (logged_in False) logout_args False
     = (Inr (Json (JObj [(''Code'', JInt 1000)])),
        snd (api_request (scripted_env always_ok no_doh) (logged_in False) logout_args False))"
  by (simp add: run_defs example_defs)


section \<open>The cookie jar of a loaded session\<close>



section \<open>Requests after a refresh\<close>


lemma bearer_Inr: "bearer v = Inr b \<Longrightarrow> \<exists>tok. v = JStr tok \<and> b = JStr (''Bearer '' @ tok)"
  by (cases v) (auto simp: bearer_def)

section \<open>The exceptions of a request and the routing policy\<close>

lemma make_request_error:
  "make_request E s fct kw = (Inl e, s') \<Longrightarrow>
     e \<in> {NewConnectionError, ConnectionTimeOutError, TLSPinningError, UnknownConnectionError}"
  by (auto simp: make_request_def Let_def split: net_outcome.splits)

lemma py_getitem_error: "py_getitem j k = Inl e \<Longrightarrow> e = TypeError \<or> e = KeyError k"
  by (cases j) (auto split: option.splits)

lemma on_type_error_error:
  "on_type_error st resp s e = (Inl e', s') \<Longrightarrow> e' = e"
  by (auto simp: on_type_error_def split: if_splits)

lemma check_code_error:
  "check_code st j s = (Inl e, s') \<Longrightarrow> e \<noteq> RuntimeError m"
  by (auto simp: check_code_def split: sum.splits if_splits
      dest!: on_type_error_error py_getitem_error)

lemma decode_response_error:
  "decode_response s r = (Inl e, s') \<Longrightarrow> e \<noteq> RuntimeError m"
  by (auto simp: decode_response_def split: option.splits if_splits dest: check_code_error)

lemma extract_each_error: "extract_each bodies routes = Inl e \<Longrightarrow> e = DNSException"
  by (induction bodies arbitrary: routes)
    (auto simp: extract_dns_answer_def split: sum.splits dns_body.splits)

lemma encoded_urls_loop_error:
  "encoded_urls_loop E s names routes = (Inl e, s') \<Longrightarrow> e \<noteq> RuntimeError m"
  by (induction names arbitrary: s routes)
    (auto simp: Let_def split: if_splits prod.splits sum.splits dest: extract_each_error)

lemma try_with_alt_routing_error:
  "try_with_alt_routing E s fct kw = (Inl e, s') \<Longrightarrow> e \<noteq> RuntimeError m"
  by (auto simp: try_with_alt_routing_def get_alternative_routes_from_dns_def
      split: prod.splits sum.splits option.splits if_splits dest: encoded_urls_loop_error)

lemma api_request_skip_error:
  assumes "allow_alternative_routes s = Some allow"
    and "api_request E s a True = (Inl e, s')"
  shows "e \<noteq> RuntimeError m"
  using assms
  apply (subst (asm) api_request.simps)
  apply (auto simp: Let_def split: option.splits sum.splits prod.splits if_splits
      dest: make_request_error decode_response_error)
  done

lemma is_api_reacheable_error:
  assumes "allow_alternative_routes s = Some allow"
    and "is_api_reacheable E s = (Inl e, s')"
  shows "e \<noteq> RuntimeError m"
  using assms
  apply (subst (asm) is_api_reacheable.simps)
  apply (auto split: prod.splits sum.splits if_splits dest: api_request_skip_error)
  done

lemma api_request_error:
  assumes "allow_alternative_routes s = Some allow"
    and "api_request E s a skip = (Inl e, s')"
  shows "e \<noteq> RuntimeError m"
proof -
  have probe: "\<And>fct kw r s1 e' s2. make_request E s fct kw = (r, s1) \<Longrightarrow>
      is_api_reacheable E s1 = (Inl e', s2) \<Longrightarrow> e' \<noteq> RuntimeError m"
  proof -
    fix fct kw r s1 e' s2
    assume "make_request E s fct kw = (r, s1)" and p: "is_api_reacheable E s1 = (Inl e', s2)"
    then have "allow_alternative_routes s1 = Some allow"
      using assms(1) make_request_unchanged [of E s fct kw r s1] by (simp add: unchanged_def)
    then show "e' \<noteq> RuntimeError m" using p by (rule is_api_reacheable_error)
  qed
  show ?thesis
    using assms
    apply (subst (asm) api_request.simps)
    apply (auto simp: Let_def split: option.splits sum.splits prod.splits if_splits bool.splits
        dest: make_request_error decode_response_error try_with_alt_routing_error probe)
    done
qed

lemma logout_allow:
  "allow_alternative_routes (snd (logout E s)) = allow_alternative_routes s"
  by (auto simp: logout_def unchanged_def split: prod.splits sum.splits
      dest!: api_request_unchanged)

lemma authenticate_allow:
  "allow_alternative_routes (snd (authenticate E s username password))
     = allow_alternative_routes s"
proof -
  have l: "\<And>r s1. logout E s = (r, s1) \<Longrightarrow>
             allow_alternative_routes s1 = allow_alternative_routes s"
    using logout_allow [of E s] by simp
  show ?thesis
    by (auto simp: authenticate_def Let_def unchanged_def split: prod.splits sum.splits
        dest!: api_request_unchanged l)
qed

lemma provide_2fa_allow:
  "allow_alternative_routes (snd (provide_2fa E s code)) = allow_alternative_routes s"
  by (auto simp: provide_2fa_def Let_def unchanged_def split: prod.splits sum.splits
      dest!: api_request_unchanged)

lemma refresh_allow:
  "allow_alternative_routes (snd (refresh E s)) = allow_alternative_routes s"
  by (auto simp: refresh_def Let_def unchanged_def split: prod.splits sum.splits
      dest!: api_request_unchanged)

lemma api_request_allow:
  "allow_alternative_routes (snd (api_request E s a skip)) = allow_alternative_routes s"
  using api_request_unchanged [of E s a skip "fst (api_request E s a skip)"
      "snd (api_request E s a skip)"]
  by (simp add: unchanged_def)

lemma get_alternative_routes_allow:
  "allow_alternative_routes (snd (get_alternative_routes_from_dns E s))
     = allow_alternative_routes s"
  using get_alternative_routes_from_dns_unchanged [of E s
      "fst (get_alternative_routes_from_dns E s)" "snd (get_alternative_routes_from_dns E s)"]
  by (simp add: unchanged_def)

lemma perform_allow:
  assumes "allow_alternative_routes s = Some b"
  shows "\<exists>b'. allow_alternative_routes (perform E s c) = Some b'"
  using assms
  by (cases c)
    (simp_all add: set_enable_alternative_routing_def set_force_skip_alternative_routing_def
      set_human_verification_token_def del_human_verification_token_def api_request_allow
      get_alternative_routes_allow authenticate_allow provide_2fa_allow logout_allow
      refresh_allow)

lemma perform_all_allow:
  "allow_alternative_routes s = Some b \<Longrightarrow>
     \<exists>b'. allow_alternative_routes (perform_all E s calls) = Some b'"
proof (induction calls arbitrary: s b)
  case Nil
  then show ?case by simp
next
  case (Cons c calls)
  from perform_allow [OF Cons.prems, of E c]
  obtain b' where "allow_alternative_routes (perform E s c) = Some b'" by blast
  then show ?case using Cons.IH by simp
qed

lemma extract_each_append:
  "extract_each (bodies @ [b]) routes =
     (case extract_each bodies routes of Inl e \<Rightarrow> Inl e | Inr r \<Rightarrow> extract_dns_answer b)"
  by (induction bodies arbitrary: routes) (auto split: sum.splits)

section \<open>The routing policy must be set before any request\<close>

text \<open>
  C1.  Whatever the endpoint, method, body and headers: when the alternative-routing
  policy has never been set, \<open>api_request\<close> raises the \<open>RuntimeError\<close> with the message
  about the missing configuration, and the session it leaves is the session it found, so
  nothing was added to the log of network calls.
\<close>

theorem api_request_policy_not_configured:
  assumes "allow_alternative_routes s = None"
  shows "api_request E s a skip = (Inl (RuntimeError policy_msg), s)
         \<and> wire (snd (api_request E s a skip)) = wire s"
  using assms by (simp add: api_request.simps)

theorem api_request_policy_not_configured_witness:
  "allow_alternative_routes fresh_session = None
   \<and> api_request (scripted_env unreachable no_doh) fresh_session logout_args False
       = (Inl (RuntimeError policy_msg), fresh_session)
   \<and> wire (snd (api_request (scripted_env unreachable no_doh) fresh_session logout_args False))
       = []"
proof -
  have h: "allow_alternative_routes fresh_session = None"
    by (simp add: fresh_session_def)
  have w: "wire fresh_session = []"
    by (simp add: fresh_session_def)
  show ?thesis
    using h w
      api_request_policy_not_configured
        [OF h, of "scripted_env unreachable no_doh" logout_args False]
    by simp
qed

section \<open>Logout\<close>

text \<open>
  C2, as the code has it.  \<open>logout\<close> sends \<open>DELETE /auth\<close> with nothing around the
  call to catch what it raises.  For a session that holds credentials: when the request
  raises, \<open>logout\<close> raises the same exception and the credentials and the two
  authentication headers stay as they were; when the request returns (and both headers
  are set), \<open>logout\<close> returns and the credentials and both headers are gone.
\<close>

theorem logout_clears_only_after_delete:
  assumes "session_data s \<noteq> []"
  shows "(\<forall>e s1. api_request E s logout_args False = (Inl e, s1) \<longrightarrow>
            logout E s = (Inl e, s1) \<and> session_data s1 = session_data s
            \<and> auth_header s1 = auth_header s \<and> uid_header s1 = uid_header s)
       \<and> (\<forall>r s1. api_request E s logout_args False = (Inr r, s1)
                   \<and> auth_header s \<noteq> None \<and> uid_header s \<noteq> None \<longrightarrow>
            fst (logout E s) = Inr () \<and> session_data (snd (logout E s)) = []
            \<and> auth_header (snd (logout E s)) = None
            \<and> uid_header (snd (logout E s)) = None)"
  using logout_failure [OF assms] logout_success [OF assms] by blast

text \<open>
  The claim C2 as stated fails: with the API host unreachable and alternative routing
  disabled, \<open>logout\<close> raises \<open>NewConnectionError\<close> and the session still holds its
  UID, its access token and both authentication headers.
\<close>

theorem logout_transport_failure_counterexample:
  "fst (logout (scripted_env unreachable no_doh) (logged_in False)) = Inl NewConnectionError
   \<and> UID (snd (logout (scripted_env unreachable no_doh) (logged_in False))) = JStr ''u1''
   \<and> AccessToken (snd (logout (scripted_env unreachable no_doh) (logged_in False))) = JStr ''a1''
   \<and> auth_header (snd (logout (scripted_env unreachable no_doh) (logged_in False)))
       = Some (JStr ''Bearer a1'')
   \<and> uid_header (snd (logout (scripted_env unreachable no_doh) (logged_in False)))
       = Some (JStr ''u1'')"
  by (simp add: logout_def run_defs example_defs UID_def AccessToken_def dict_get_def
      auth_header_def uid_header_def)

theorem logout_clears_only_after_delete_witness:
  "session_data (logged_in False) \<noteq> []
   \<and> fst (logout (scripted_env unreachable no_doh) (logged_in False)) = Inl NewConnectionError
   \<and> session_data (snd (logout (scripted_env unreachable no_doh) (logged_in False)))
       = session_data (logged_in False)
   \<and> fst (logout (scripted_env always_ok no_doh) (logged_in False)) = Inr ()
   \<and> session_data (snd (logout (scripted_env always_ok no_doh) (logged_in False))) = []
   \<and> auth_header (snd (logout (scripted_env always_ok no_doh) (logged_in False))) = None
   \<and> uid_header (snd (logout (scripted_env always_ok no_doh) (logged_in False))) = None"
proof -
  have h: "session_data (logged_in False) \<noteq> []"
    by (simp add: logged_in_def)
  have a: "auth_header (logged_in False) \<noteq> None" and u: "uid_header (logged_in False) \<noteq> None"
    by (simp_all add: logged_in_def fresh_session_def auth_header_def uid_header_def)
  note t1 = logout_clears_only_after_delete [OF h, of "scripted_env unreachable no_doh"]
  note t2 = logout_clears_only_after_delete [OF h, of "scripted_env always_ok no_doh"]
  from t1 delete_unreachable
  have "logout (scripted_env unreachable no_doh) (logged_in False)
          = (Inl NewConnectionError, snd (logout (scripted_env unreachable no_doh) (logged_in False)))
        \<and> session_data (snd (logout (scripted_env unreachable no_doh) (logged_in False)))
            = session_data (logged_in False)"
    by blast
  then have "fst (logout (scripted_env unreachable no_doh) (logged_in False))
          = Inl NewConnectionError
        \<and> session_data (snd (logout (scripted_env unreachable no_doh) (logged_in False)))
            = session_data (logged_in False)"
    by (metis fst_conv)
  moreover from t2 delete_answered a u
  have "fst (logout (scripted_env always_ok no_doh) (logged_in False)) = Inr ()
        \<and> session_data (snd (logout (scripted_env always_ok no_doh) (logged_in False))) = []
        \<and> auth_header (snd (logout (scripted_env always_ok no_doh) (logged_in False))) = None
        \<and> uid_header (snd (logout (scripted_env always_ok no_doh) (logged_in False))) = None"
    by blast
  ultimately show ?thesis using h by simp
qed

section \<open>Alternative routes from DNS\<close>

text \<open>
  C3 does not hold of the code.  The loop over the collected responses assigns \<open>routes\<close>
  for every response, so the routes of the last response are kept, not those of the
  first response with an answer.  Here the first DNS host publishes \<open>alt1.example\<close> for
  the first name and the second host answers with an empty answer section: the routes
  of the first host are lost, the loop goes on to the second name and the result is
  empty.
\<close>

theorem dns_routes_of_first_response_lost:
  "extract_dns_answer (Message [[quoted ''alt1.example'']]) = Inr [''alt1.example'']
   \<and> fst (get_alternative_routes_from_dns (scripted_env unreachable route_then_nothing)
            fresh_session) = Inr []
   \<and> map (\<lambda>ev. case ev of Doh host query \<Rightarrow> host | Http rq \<Rightarrow> req_url rq)
         (wire (snd (get_alternative_routes_from_dns
                       (scripted_env unreachable route_then_nothing) fresh_session)))
       = [''https://dns1.example'', ''https://dns2.example'',
          ''https://dns1.example'', ''https://dns2.example'']"
  by (simp add: run_defs example_defs)

theorem dns_routes_of_first_response_lost_witness:
  "fst (get_alternative_routes_from_dns (scripted_env unreachable route_then_nothing)
            fresh_session) \<noteq> extract_dns_answer (Message [[quoted ''alt1.example'']])
   \<and> length (wire (snd (get_alternative_routes_from_dns
                           (scripted_env unreachable route_then_nothing) fresh_session))) = 4"
proof -
  let ?w = "wire (snd (get_alternative_routes_from_dns
                         (scripted_env unreachable route_then_nothing) fresh_session))"
  let ?f = "\<lambda>ev. case ev of Doh host query \<Rightarrow> host | Http rq \<Rightarrow> req_url rq"
  from dns_routes_of_first_response_lost
  have m: "map ?f ?w = [''https://dns1.example'', ''https://dns2.example'',
                        ''https://dns1.example'', ''https://dns2.example'']"
    by blast
  have "length (map ?f ?w) = 4"
    by (subst m) simp
  then have "length ?w = 4" by simp
  with dns_routes_of_first_response_lost show ?thesis by simp
qed

section \<open>The retry over the alternative routes\<close>

text \<open>
  C4 does not hold of the code.  A response object of \<open>requests\<close> is falsy when its
  status is 400 or more, so \<open>if not response\<close> also holds for a host that answered.
  Here the only alternative host answers the replayed request with status 404: the host
  is stored in the Route Cache as the code does after a request that returned, and then
  \<open>NetworkError\<close> is raised instead of the response being returned.
\<close>

theorem alt_route_stored_but_network_error:
  "fst (try_with_alt_routing (scripted_env (alt_host_only 404) one_route) (logged_in True) GET
          (config_params (logged_in True))) = Inl NetworkError
   \<and> get_alternative_url
         (metadata (snd (try_with_alt_routing (scripted_env (alt_host_only 404) one_route)
                           (logged_in True) GET (config_params (logged_in True)))))
       = ''https://alt1.example''
   \<and> get_alternative_url (metadata (logged_in True)) = []"
  by (simp add: run_defs example_defs config_params_def)

theorem alt_route_stored_but_network_error_witness:
  "fst (try_with_alt_routing (scripted_env (alt_host_only 404) one_route) (logged_in True) GET
          (config_params (logged_in True))) \<noteq> Inr (html_response 404)
   \<and> get_alternative_url
         (metadata (snd (try_with_alt_routing (scripted_env (alt_host_only 404) one_route)
                           (logged_in True) GET (config_params (logged_in True)))))
       \<noteq> get_alternative_url (metadata (logged_in True))"
  using alt_route_stored_but_network_error by simp

section \<open>Verification of the modulus\<close>




section \<open>Authentication without a server proof\<close>

text \<open>
  C6, as the code has it.  \<open>authenticate\<close> logs out first.  When the answer of \<open>/auth\<close>
  lacks \<open>ServerProof\<close>, it raises \<open>ValueError\<close> with the message \<open>Invalid password\<close> and
  stores nothing: the session holds no session data, so no UID, access token or refresh
  token.  A session that held no credentials keeps its authentication headers; one that
  held credentials has lost them and both headers to the logout.
\<close>

theorem authenticate_without_server_proof:
  assumes "logout E s = (Inr (), s1)"
    and "api_request E s1 (auth_info_args s1 username) False = (Inr info_response, s2)"
    and "srp_payload E s2 username password info_response = Inr (payload, usr)"
    and "api_request E s2 (auth_args payload) False = (Inr auth_response, s3)"
    and "result_contains auth_response ''ServerProof'' = Inr False"
  shows "authenticate E s username password = (Inl (ValueError ''Invalid password''), s3)
         \<and> session_data s3 = []
         \<and> UID s3 = JNull \<and> AccessToken s3 = JNull \<and> RefreshToken s3 = JNull
         \<and> (session_data s = [] \<longrightarrow>
              auth_header s3 = auth_header s \<and> uid_header s3 = uid_header s)
         \<and> (session_data s \<noteq> [] \<longrightarrow> auth_header s3 = None \<and> uid_header s3 = None)"
proof -
  have raised: "authenticate E s username password = (Inl (ValueError ''Invalid password''), s3)"
    using assms by (simp add: authenticate_def new_session_data_def)
  have u12: "unchanged s1 s2" by (rule api_request_unchanged [OF assms(2)])
  have u23: "unchanged s2 s3" by (rule api_request_unchanged [OF assms(4)])
  have u: "unchanged s1 s3" by (rule unchanged_trans [OF u12 u23])
  from logout_result [OF assms(1)] u have "session_data s3 = []"
    by (simp add: unchanged_def)
  moreover from logout_result [OF assms(1)] u
  have "session_data s = [] \<longrightarrow> auth_header s3 = auth_header s \<and> uid_header s3 = uid_header s"
    by (auto simp: unchanged_def)
  moreover from logout_result [OF assms(1)] u
  have "session_data s \<noteq> [] \<longrightarrow> auth_header s3 = None \<and> uid_header s3 = None"
    by (auto simp: unchanged_def)
  ultimately show ?thesis
    using raised by (simp add: UID_def AccessToken_def RefreshToken_def dict_get_def)
qed

text \<open>
  The claim C6 as stated fails: the persistent state is not left unchanged.  A session
  that held the UID \<open>u1\<close> and sent \<open>Bearer a1\<close> holds neither after the failed
  authentication.
\<close>

theorem authenticate_clears_credentials_counterexample:
  "fst (authenticate (scripted_env bad_password_api no_doh) (logged_in False) ''alice'' ''pw'')
     = Inl (ValueError ''Invalid password'')
   \<and> UID (logged_in False) = JStr ''u1''
   \<and> UID (snd (authenticate (scripted_env bad_password_api no_doh) (logged_in False)
                 ''alice'' ''pw'')) = JNull
   \<and> auth_header (logged_in False) = Some (JStr ''Bearer a1'')
   \<and> auth_header (snd (authenticate (scripted_env bad_password_api no_doh) (logged_in False)
                         ''alice'' ''pw'')) = None"
  by (simp add: auth_defs run_defs example_defs auth_header_def dict_del_def)

theorem authenticate_without_server_proof_witness:
  "fst (authenticate (scripted_env bad_password_api no_doh) (logged_in False) ''alice'' ''pw'')
     = Inl (ValueError ''Invalid password'')
   \<and> session_data (logged_in False) \<noteq> []
   \<and> session_data (snd (authenticate (scripted_env bad_password_api no_doh) (logged_in False)
                           ''alice'' ''pw'')) = []
   \<and> auth_header (snd (authenticate (scripted_env bad_password_api no_doh) (logged_in False)
                         ''alice'' ''pw'')) = None
   \<and> uid_header (snd (authenticate (scripted_env bad_password_api no_doh) (logged_in False)
                        ''alice'' ''pw'')) = None"
proof -
  define E where "E = scripted_env bad_password_api no_doh"
  define s where "s = logged_in False"
  define s1 where "s1 = snd (logout E s)"
  define info where "info = projr (fst (api_request E s1 (auth_info_args s1 ''alice'') False))"
  define s2 where "s2 = snd (api_request E s1 (auth_info_args s1 ''alice'') False)"
  define payload where "payload = fst (projr (srp_payload E s2 ''alice'' ''pw'' info))"
  define usr where "usr = snd (projr (srp_payload E s2 ''alice'' ''pw'' info))"
  define answer where "answer = projr (fst (api_request E s2 (auth_args payload) False))"
  define s3 where "s3 = snd (api_request E s2 (auth_args payload) False)"
  have h1: "logout E s = (Inr (), s1)"
    unfolding s1_def s_def E_def
    by (simp add: auth_defs run_defs example_defs dict_del_def)
  have s1_eq: "s1 = (logged_in False)
      \<lparr>session_data := [],
       headers := [(''x-pm-appversion'', JStr ''Other''), (''User-Agent'', JStr ''None'')],
       wire := wire (snd (logout E s))\<rparr>"
    unfolding s1_def s_def E_def
    by (simp add: auth_defs run_defs example_defs dict_del_def)
  have h2: "api_request E s1 (auth_info_args s1 ''alice'') False = (Inr info, s2)"
    unfolding info_def s2_def s1_eq E_def
    by (simp add: auth_defs run_defs example_defs)
  have s2_eq: "s2 = s1\<lparr>wire := wire s2\<rparr>"
    unfolding s2_def s1_eq E_def
    by (simp add: auth_defs run_defs example_defs)
  have info_eq: "info = Json (JObj [(''Code'', JInt 1000), (''Modulus'', JStr ''signed''),
                 (''ServerEphemeral'', JStr ''AAAA''), (''Salt'', JStr ''c2FsdA==''),
                 (''Version'', JInt 4), (''SRPSession'', JStr ''sess'')])"
    unfolding info_def s1_eq E_def
    by (simp add: auth_defs run_defs example_defs)
  have h3: "srp_payload E s2 ''alice'' ''pw'' info = Inr (payload, usr)"
    unfolding payload_def usr_def info_eq
    by (subst (1 2 3) s2_eq) (simp add: s1_eq E_def auth_defs example_defs lower_def lower_char_def
        strip_chars_def)
  have payload_eq: "payload \<noteq> JNull"
    unfolding payload_def info_eq
    by (subst s2_eq) (simp add: s1_eq E_def auth_defs example_defs lower_def lower_char_def
        strip_chars_def)
  have h4: "api_request E s2 (auth_args payload) False = (Inr answer, s3)"
    unfolding answer_def s3_def
    using payload_eq
    by (subst (1 2 3) s2_eq) (simp add: s1_eq E_def auth_defs run_defs example_defs)
  have h5: "result_contains answer ''ServerProof'' = Inr False"
    unfolding answer_def
    using payload_eq
    by (subst s2_eq) (simp add: s1_eq E_def auth_defs run_defs example_defs)
  have nonempty: "session_data s \<noteq> []"
    by (simp add: s_def logged_in_def)
  from authenticate_without_server_proof [OF h1 h2 h3 h4 h5] nonempty
  have "authenticate E s ''alice'' ''pw'' = (Inl (ValueError ''Invalid password''), s3)
        \<and> session_data s3 = [] \<and> auth_header s3 = None \<and> uid_header s3 = None"
    by blast
  then have "fst (authenticate E s ''alice'' ''pw'') = Inl (ValueError ''Invalid password'')
        \<and> session_data (snd (authenticate E s ''alice'' ''pw'')) = []
        \<and> auth_header (snd (authenticate E s ''alice'' ''pw'')) = None
        \<and> uid_header (snd (authenticate E s ''alice'' ''pw'')) = None"
    by simp
  with nonempty show ?thesis
    unfolding E_def s_def by simp
qed

section \<open>Dumping and loading\<close>




section \<open>Refresh\<close>



section \<open>Responses that are not JSON\<close>

text \<open>
  C9 does not hold of the code on every path.  When the API host itself answers with
  status 404 and a body that is not JSON, \<open>api_request\<close> raises \<open>ProtonAPIError\<close> with
  the status, the reason and the headers.  When the same answer comes from an
  alternative host, \<open>__try_with_alt_routing\<close> has already raised \<open>NetworkError\<close>, because
  a response with status 400 or more is falsy, and lines 263 to 299 are never reached.
\<close>

theorem alt_route_error_page_is_network_error:
  "fst (api_request (scripted_env (error_page_api 404) no_doh) (logged_in True) config_args False)
     = Inl (ProtonAPIError
              (JObj [(''Code'', JInt 404), (''Error'', JStr ''reason''),
                     (''Headers'', JObj [(''Server'', JStr ''x'')])]))
   \<and> fst (api_request (scripted_env (alt_host_only 404) one_route) (logged_in True) config_args
            False) = Inl NetworkError
   \<and> last (wire (snd (api_request (scripted_env (alt_host_only 404) one_route) (logged_in True)
                         config_args False)))
       = Http \<lparr>req_method = GET, req_url = ''https://alt1.example/vpn/config'',
                req_headers = None, req_json = JNull, req_timeout = 10, req_verify = False,
                req_params = None, req_session_headers = headers (logged_in True),
                req_session_cookies = cookies (logged_in True)\<rparr>"
  by (simp add: run_defs example_defs error_page_api_def)

theorem alt_route_error_page_is_network_error_witness:
  "fst (api_request (scripted_env (alt_host_only 404) one_route) (logged_in True) config_args
          False)
     \<noteq> fst (api_request (scripted_env (error_page_api 404) no_doh) (logged_in True) config_args
              False)"
  using alt_route_error_page_is_network_error by simp

section \<open>Once set, the routing policy stays set\<close>

text \<open>
  C10.  The setter stores \<open>bool(newvalue)\<close>.  After it, whatever calls are made on the
  session, in any number and order, the policy is a boolean, and \<open>api_request\<close> does not
  raise the \<open>RuntimeError\<close> about the missing configuration.
\<close>

theorem policy_stays_configured:
  "allow_alternative_routes (set_enable_alternative_routing s v) = Some (py_bool v)
   \<and> (\<exists>b. allow_alternative_routes (perform_all E (set_enable_alternative_routing s v) calls)
            = Some b)
   \<and> fst (api_request E (perform_all E (set_enable_alternative_routing s v) calls) a skip)
       \<noteq> Inl (RuntimeError policy_msg)"
proof -
  have set: "allow_alternative_routes (set_enable_alternative_routing s v) = Some (py_bool v)"
    by (simp add: set_enable_alternative_routing_def)
  from perform_all_allow [OF set, of E calls] obtain b where later:
    "allow_alternative_routes (perform_all E (set_enable_alternative_routing s v) calls) = Some b"
    by blast
  have "fst (api_request E (perform_all E (set_enable_alternative_routing s v) calls) a skip)
          \<noteq> Inl (RuntimeError policy_msg)"
    using api_request_error [OF later, of E a skip _
        "snd (api_request E (perform_all E (set_enable_alternative_routing s v) calls) a skip)"
        policy_msg]
    by (metis prod.collapse)
  with set later show ?thesis by auto
qed

theorem policy_stays_configured_witness:
  "allow_alternative_routes fresh_session = None
   \<and> allow_alternative_routes (set_enable_alternative_routing fresh_session (JInt 0)) = Some False
   \<and> allow_alternative_routes
        (perform_all (scripted_env always_ok no_doh)
           (set_enable_alternative_routing fresh_session (JInt 0))
           [ApiRequest config_args False, Logout, SetEnableAlternativeRouting (JStr ''yes'')])
       = Some True
   \<and> fst (api_request (scripted_env always_ok no_doh)
            (perform_all (scripted_env always_ok no_doh)
               (set_enable_alternative_routing fresh_session (JInt 0))
               [ApiRequest config_args False, Logout, SetEnableAlternativeRouting (JStr ''yes'')])
            config_args False)
       \<noteq> Inl (RuntimeError policy_msg)"
proof -
  have a: "allow_alternative_routes fresh_session = None"
    by (simp add: fresh_session_def)
  have b: "allow_alternative_routes
        (perform_all (scripted_env always_ok no_doh)
           (set_enable_alternative_routing fresh_session (JInt 0))
           [ApiRequest config_args False, Logout, SetEnableAlternativeRouting (JStr ''yes'')])
       = Some True"
    by (simp add: set_enable_alternative_routing_def api_request_allow logout_allow)
  from policy_stays_configured [of fresh_session "JInt 0" "scripted_env always_ok no_doh"
      "[ApiRequest config_args False, Logout, SetEnableAlternativeRouting (JStr ''yes'')]"
      config_args False] a b
  show ?thesis by simp
qed

section \<open>Further properties of the code\<close>

text \<open>
  What \<open>api_request\<close> does with a response of the API host that is not JSON: with
  status 200 it returns the response object, with any other status it raises
  \<open>ProtonAPIError\<close> with the status, the reason and the headers.
\<close>

theorem api_request_non_json_from_api_host:
  assumes "allow_alternative_routes s = Some allow"
    and "select_fct (a_method a) (a_jsondata a) = Some fct"
    and "make_request E s fct (build_request_params E s a allow) = (Inr response, s1)"
    and "json_body response = None"
  shows "api_request E s a skip =
           (if status_code response = 200 then Inr (Raw response)
            else Inl (status_error response), s1)"
  using assms
  by (simp add: api_request.simps decode_response_def status_error_def)

theorem api_request_non_json_from_api_host_witness:
  "fst (api_request (scripted_env (error_page_api 200) no_doh) (logged_in True) config_args False)
     = Inr (Raw (html_response 200))
   \<and> fst (api_request (scripted_env (error_page_api 503) no_doh) (logged_in True) config_args
            False) = Inl (status_error (html_response 503))"
proof -
  have a: "allow_alternative_routes (logged_in True) = Some True"
    by (simp add: logged_in_def)
  have f: "select_fct (a_method config_args) (a_jsondata config_args) = Some GET"
    by (simp add: config_args_def select_fct_def)
  have j: "json_body (html_response 200) = None" "json_body (html_response 503) = None"
    by (simp_all add: html_response_def)
  have m: "make_request (scripted_env (error_page_api st) no_doh) (logged_in True) GET
             (build_request_params (scripted_env (error_page_api st) no_doh) (logged_in True)
                config_args True)
           = (Inr (html_response st),
              snd (make_request (scripted_env (error_page_api st) no_doh) (logged_in True) GET
                     (build_request_params (scripted_env (error_page_api st) no_doh)
                        (logged_in True) config_args True)))" for st
    by (simp add: make_request_def scripted_env_def error_page_api_def Let_def)
  from api_request_non_json_from_api_host [OF a f m j(1), of False]
    api_request_non_json_from_api_host [OF a f m j(2), of False]
  show ?thesis by (simp add: html_response_def)
qed

text \<open>
  The routes that the loop over the collected responses of one name ends with are those
  of the last response.
\<close>

theorem routes_of_last_response:
  assumes "extract_each (bodies @ [b]) routes = Inr result"
  shows "extract_dns_answer b = Inr result"
  using assms by (simp add: extract_each_append split: sum.splits)

theorem routes_of_last_response_witness:
  "extract_each ([Message [[quoted ''alt1.example'']]] @ [Message []]) [] = Inr []
   \<and> extract_dns_answer (Message []) = Inr []"
proof -
  have h: "extract_each ([Message [[quoted ''alt1.example'']]] @ [Message []]) [] = Inr []"
    by (simp add: extract_dns_answer_def)
  from routes_of_last_response [OF h] h show ?thesis by simp
qed

text \<open>
  When \<open>authenticate\<close> returns, it returns the stored \<open>Scope\<close>, and if a UID is stored
  the session sends it as \<open>x-pm-uid\<close> and sends \<open>Bearer\<close> with the stored access token
  as \<open>Authorization\<close>.
\<close>

theorem authenticate_returns:
  assumes "authenticate E s username password = (Inr scope, s')"
  shows "scope = Scope s'
         \<and> (UID s' = JNull \<or>
              uid_header s' = Some (UID s')
              \<and> (\<exists>tok. AccessToken s' = JStr tok
                        \<and> auth_header s' = Some (JStr (''Bearer '' @ tok))))"
  using assms
  by (auto simp: authenticate_def Let_def UID_def AccessToken_def Scope_def auth_header_def
      uid_header_def update_conv' split: prod.splits sum.splits if_splits dest!: bearer_Inr)

theorem authenticate_returns_witness:
  "fst (authenticate (scripted_env good_password_api no_doh) (logged_in False) ''alice'' ''pw'')
     = Inr (JArr [JStr ''mail'', JStr ''vpn''])
   \<and> UID (snd (authenticate (scripted_env good_password_api no_doh) (logged_in False)
                 ''alice'' ''pw'')) = JStr ''u2''
   \<and> uid_header (snd (authenticate (scripted_env good_password_api no_doh) (logged_in False)
                        ''alice'' ''pw'')) = Some (JStr ''u2'')
   \<and> auth_header (snd (authenticate (scripted_env good_password_api no_doh) (logged_in False)
                         ''alice'' ''pw'')) = Some (JStr ''Bearer a2'')"
proof -
  define E where "E = scripted_env good_password_api no_doh"
  define s' where "s' = snd (authenticate E (logged_in False) ''alice'' ''pw'')"
  have v: "fst (authenticate E (logged_in False) ''alice'' ''pw'')
             = Inr (JArr [JStr ''mail'', JStr ''vpn''])
           \<and> UID s' = JStr ''u2'' \<and> AccessToken s' = JStr ''a2''"
    unfolding s'_def E_def
    by (simp add: auth_defs run_defs example_defs good_password_api_def dict_del_def
        split_ws.simps char_of_eq_iff)
  then have h: "authenticate E (logged_in False) ''alice'' ''pw''
                  = (Inr (JArr [JStr ''mail'', JStr ''vpn'']), s')"
    unfolding s'_def by (metis prod.collapse)
  from authenticate_returns [OF h] v
  have "uid_header s' = Some (JStr ''u2'') \<and> auth_header s' = Some (JStr ''Bearer a2'')"
    by auto
  with v show ?thesis unfolding s'_def E_def by simp
qed

end
